theory Spec2Isabelle
  imports Main
begin

section \<open>Version reconciliation: the notebook update handler\<close>

text \<open>
  The embedding follows \<^verbatim>\<open>polynote-frontend/polynote/state/notebook_state.ts\<close>.
  JavaScript numbers that hold versions, cell ids and array positions are modelled
  as unbounded integers (\<open>int\<close>) or naturals (\<open>nat\<close>): the counters start at \<open>-1\<close>
  and only ever move by one, so the loss of precision of a double beyond \<open>2^53\<close> is
  out of reach and is not modelled. A value that may be \<^verbatim>\<open>undefined\<close> is an
  \<open>option\<close> with \<open>None\<close> for \<^verbatim>\<open>undefined\<close>.
\<close>

subsection \<open>Messages\<close>

text \<open>
  The message classes live in \<^verbatim>\<open>data/messages\<close> and \<^verbatim>\<open>data/data\<close>; their
  constructors are taken with the argument order of the call sites in
  \<^verbatim>\<open>NotebookUpdateHandler\<close>. Every message starts with
  \<open>(globalVersion, localVersion)\<close>. The payload types the handler never inspects
  (metadata, comments, content edits, ranges, outputs, configuration) are type
  parameters.
\<close>

datatype ('meta, 'result) NotebookCell =
  NotebookCell int string string "'result list" 'meta

datatype ('meta, 'comment, 'edit, 'range, 'output, 'config, 'result) NotebookUpdate =
    InsertCell int int "('meta, 'result) NotebookCell" int
  | DeleteCell int int int
  | UpdateCell int int int "'edit list" "'meta option"
  | CreateComment int int int 'comment
  | DeleteComment int int int string
  | UpdateComment int int int string 'range string
  | SetCellOutput int int int 'output
  | SetCellLanguage int int int string
  | UpdateConfig int int 'config

fun update_globalVersion ::
  "('meta, 'comment, 'edit, 'range, 'output, 'config, 'result) NotebookUpdate \<Rightarrow> int" where
  "update_globalVersion (InsertCell g l c p) = g"
| "update_globalVersion (DeleteCell g l i) = g"
| "update_globalVersion (UpdateCell g l i es m) = g"
| "update_globalVersion (CreateComment g l i c) = g"
| "update_globalVersion (DeleteComment g l i c) = g"
| "update_globalVersion (UpdateComment g l i c r t) = g"
| "update_globalVersion (SetCellOutput g l i out) = g"
| "update_globalVersion (SetCellLanguage g l i lang) = g"
| "update_globalVersion (UpdateConfig g l c) = g"

fun update_localVersion ::
  "('meta, 'comment, 'edit, 'range, 'output, 'config, 'result) NotebookUpdate \<Rightarrow> int" where
  "update_localVersion (InsertCell g l c p) = l"
| "update_localVersion (DeleteCell g l i) = l"
| "update_localVersion (UpdateCell g l i es m) = l"
| "update_localVersion (CreateComment g l i c) = l"
| "update_localVersion (DeleteComment g l i c) = l"
| "update_localVersion (UpdateComment g l i c r t) = l"
| "update_localVersion (SetCellOutput g l i out) = l"
| "update_localVersion (SetCellLanguage g l i lang) = l"
| "update_localVersion (UpdateConfig g l c) = l"

subsection \<open>The edit buffer\<close>

text \<open>
  Modelled from the spec: \<^verbatim>\<open>EditBuffer\<close> (\<^verbatim>\<open>data/edit_buffer\<close>) is not part of the
  sources at hand. The specification describes it as an ordered log of
  \<open>(localVersion, update-message)\<close> entries that supports appending, slicing a
  version range and discarding a prefix up to and including an acknowledged
  version. \<open>EditBuffer_range\<close> returns, in log order, the messages whose version is
  strictly greater than the lower bound and at most the upper bound.
\<close>

type_synonym 'u EditBuffer = "(int \<times> 'u) list"

definition EditBuffer_push :: "'u EditBuffer \<Rightarrow> int \<Rightarrow> 'u \<Rightarrow> 'u EditBuffer" where
  "EditBuffer_push buf version edit = buf @ [(version, edit)]"

definition EditBuffer_range :: "'u EditBuffer \<Rightarrow> int \<Rightarrow> int \<Rightarrow> 'u list" where
  "EditBuffer_range buf from to =
     map snd (filter (\<lambda>entry. from < fst entry \<and> fst entry \<le> to) buf)"

definition EditBuffer_discard :: "'u EditBuffer \<Rightarrow> int \<Rightarrow> 'u EditBuffer" where
  "EditBuffer_discard buf until = dropWhile (\<lambda>entry. fst entry \<le> until) buf"

subsection \<open>Handler state and operations\<close>

text \<open>
  Modelled from the spec: \<^verbatim>\<open>StateHandler.update\<close> (\<^verbatim>\<open>state/state_handler\<close>) is not
  part of the sources at hand. The specification has it hand the current value
  to the producer and store what the producer returns; the observers it then
  notifies are not part of the model.
\<close>

definition StateHandler_update :: "'s \<Rightarrow> ('s \<Rightarrow> 's) \<Rightarrow> 's" where
  "StateHandler_update current producer = producer current"

text \<open>
  \<^verbatim>\<open>NotebookUpdateHandler\<close> is a state handler over the list of published
  updates (field \<open>published\<close>, the handler's own \<^verbatim>\<open>state\<close>) with the public
  fields \<open>globalVersion\<close>, \<open>localVersion\<close> and \<open>edits\<close>. The table of cell
  watchers only holds views for the observers and is left out.

  A method returns the pair of its outcome and the handler as it is left
  behind, so that the state after a raised error is visible.
\<close>

record 'u NotebookUpdateHandler =
  globalVersion :: int
  localVersion :: int
  edits :: "'u EditBuffer"
  published :: "'u list"

datatype js_error =
    VersionMismatch int int
  | TypeError
  | RemoveValueNoLongerValid

type_synonym ('meta, 'comment, 'edit, 'range, 'output, 'config, 'result) handler =
  "('meta, 'comment, 'edit, 'range, 'output, 'config, 'result) NotebookUpdate NotebookUpdateHandler"

definition addUpdate ::
  "('meta, 'comment, 'edit, 'range, 'output, 'config, 'result) handler
   \<Rightarrow> ('meta, 'comment, 'edit, 'range, 'output, 'config, 'result) NotebookUpdate
   \<Rightarrow> (js_error + unit) \<times> ('meta, 'comment, 'edit, 'range, 'output, 'config, 'result) handler" where
  "addUpdate h upd =
     (if update_localVersion upd \<noteq> localVersion h
      then (Inl (VersionMismatch (update_localVersion upd) (localVersion h)), h)
      else (Inr (),
            h\<lparr>edits := EditBuffer_push (edits h) (update_localVersion upd) upd,
              published := StateHandler_update (published h) (\<lambda>s. s @ [upd])\<rparr>))"

definition updateHandler_insertCell ::
  "('meta, 'comment, 'edit, 'range, 'output, 'config, 'result) handler
   \<Rightarrow> int \<Rightarrow> string \<Rightarrow> string \<Rightarrow> 'meta \<Rightarrow> int
   \<Rightarrow> (js_error + unit) \<times> ('meta, 'comment, 'edit, 'range, 'output, 'config, 'result) handler" where
  "updateHandler_insertCell h cellId language content metadata prevId =
     (let h1 = h\<lparr>localVersion := localVersion h + 1\<rparr>;
          cell = NotebookCell cellId language content [] metadata;
          upd = InsertCell (globalVersion h1) (localVersion h1) cell prevId
      in addUpdate h1 upd)"

definition updateHandler_deleteCell ::
  "('meta, 'comment, 'edit, 'range, 'output, 'config, 'result) handler \<Rightarrow> int
   \<Rightarrow> (js_error + unit) \<times> ('meta, 'comment, 'edit, 'range, 'output, 'config, 'result) handler" where
  "updateHandler_deleteCell h i =
     (let h1 = h\<lparr>localVersion := localVersion h + 1\<rparr>;
          upd = DeleteCell (globalVersion h1) (localVersion h1) i
      in addUpdate h1 upd)"

definition updateCell ::
  "('meta, 'comment, 'edit, 'range, 'output, 'config, 'result) handler \<Rightarrow> int
   \<Rightarrow> 'edit list option \<Rightarrow> 'meta option
   \<Rightarrow> (js_error + unit) \<times> ('meta, 'comment, 'edit, 'range, 'output, 'config, 'result) handler" where
  "updateCell h i changed_edits changed_metadata =
     (let h1 = h\<lparr>localVersion := localVersion h + 1\<rparr>;
          upd = UpdateCell (globalVersion h1) (localVersion h1) i
                  (case changed_edits of None \<Rightarrow> [] | Some es \<Rightarrow> es) changed_metadata
      in addUpdate h1 upd)"

definition createComment ::
  "('meta, 'comment, 'edit, 'range, 'output, 'config, 'result) handler \<Rightarrow> int \<Rightarrow> 'comment
   \<Rightarrow> (js_error + unit) \<times> ('meta, 'comment, 'edit, 'range, 'output, 'config, 'result) handler" where
  "createComment h cellId comment =
     addUpdate h (CreateComment (globalVersion h) (localVersion h) cellId comment)"

definition deleteComment ::
  "('meta, 'comment, 'edit, 'range, 'output, 'config, 'result) handler \<Rightarrow> int \<Rightarrow> string
   \<Rightarrow> (js_error + unit) \<times> ('meta, 'comment, 'edit, 'range, 'output, 'config, 'result) handler" where
  "deleteComment h cellId commentId =
     addUpdate h (DeleteComment (globalVersion h) (localVersion h) cellId commentId)"

definition updateComment ::
  "('meta, 'comment, 'edit, 'range, 'output, 'config, 'result) handler \<Rightarrow> int \<Rightarrow> string
   \<Rightarrow> 'range \<Rightarrow> string
   \<Rightarrow> (js_error + unit) \<times> ('meta, 'comment, 'edit, 'range, 'output, 'config, 'result) handler" where
  "updateComment h cellId commentId range' content =
     addUpdate h (UpdateComment (globalVersion h) (localVersion h) cellId commentId range' content)"

definition setCellOutput ::
  "('meta, 'comment, 'edit, 'range, 'output, 'config, 'result) handler \<Rightarrow> int \<Rightarrow> 'output
   \<Rightarrow> (js_error + unit) \<times> ('meta, 'comment, 'edit, 'range, 'output, 'config, 'result) handler" where
  "setCellOutput h cellId output =
     addUpdate h (SetCellOutput (globalVersion h) (localVersion h) cellId output)"

definition updateConfig ::
  "('meta, 'comment, 'edit, 'range, 'output, 'config, 'result) handler \<Rightarrow> 'config
   \<Rightarrow> (js_error + unit) \<times> ('meta, 'comment, 'edit, 'range, 'output, 'config, 'result) handler" where
  "updateConfig h config =
     (let h1 = h\<lparr>localVersion := localVersion h + 1\<rparr>;
          upd = UpdateConfig (globalVersion h1) (localVersion h1) config
      in addUpdate h1 upd)"

text \<open>
  The bodies of the observers that \<^verbatim>\<open>watchCell\<close> attaches to the views of a
  cell: new outputs (the list \<^verbatim>\<open>added\<close> that \<^verbatim>\<open>diffArray\<close> computes is the
  argument; \<^verbatim>\<open>forEach\<close> stops at the first error raised), a changed language,
  pending outgoing edits and changed metadata. The observer of the comments
  only calls \<open>createComment\<close>, \<open>deleteComment\<close> and \<open>updateComment\<close>, and the
  observer of the results publishes an output as \<open>setCellOutput\<close> does.
\<close>

fun watchCell_output ::
  "('meta, 'comment, 'edit, 'range, 'output, 'config, 'result) handler \<Rightarrow> int \<Rightarrow> 'output list
   \<Rightarrow> (js_error + unit) \<times> ('meta, 'comment, 'edit, 'range, 'output, 'config, 'result) handler" where
  "watchCell_output h i [] = (Inr (), h)"
| "watchCell_output h i (out # added) =
     (case addUpdate h (SetCellOutput (globalVersion h) (localVersion h) i out) of
        (Inl e, h') \<Rightarrow> (Inl e, h')
      | (Inr u, h') \<Rightarrow> watchCell_output h' i added)"

definition watchCell_language ::
  "('meta, 'comment, 'edit, 'range, 'output, 'config, 'result) handler \<Rightarrow> int \<Rightarrow> string
   \<Rightarrow> (js_error + unit) \<times> ('meta, 'comment, 'edit, 'range, 'output, 'config, 'result) handler" where
  "watchCell_language h i lang =
     addUpdate h (SetCellLanguage (globalVersion h) (localVersion h) i lang)"

definition watchCell_outgoingEdits ::
  "('meta, 'comment, 'edit, 'range, 'output, 'config, 'result) handler \<Rightarrow> int \<Rightarrow> 'edit list
   \<Rightarrow> (js_error + unit) \<times> ('meta, 'comment, 'edit, 'range, 'output, 'config, 'result) handler" where
  "watchCell_outgoingEdits h i es =
     (if length es > 0 then updateCell h i (Some es) None else (Inr (), h))"

definition watchCell_metadata ::
  "('meta, 'comment, 'edit, 'range, 'output, 'config, 'result) handler \<Rightarrow> int \<Rightarrow> 'meta
   \<Rightarrow> (js_error + unit) \<times> ('meta, 'comment, 'edit, 'range, 'output, 'config, 'result) handler" where
  "watchCell_metadata h i m = updateCell h i None (Some m)"

text \<open>
  \<^verbatim>\<open>rebaseUpdate\<close>. The transformation \<^verbatim>\<open>NotebookUpdate.rebase\<close> of
  \<^verbatim>\<open>data/messages\<close> is not part of the sources at hand and is the parameter
  \<open>rebase\<close>.
\<close>

definition rebaseUpdate ::
  "(('meta, 'comment, 'edit, 'range, 'output, 'config, 'result) NotebookUpdate
     \<Rightarrow> ('meta, 'comment, 'edit, 'range, 'output, 'config, 'result) NotebookUpdate list
     \<Rightarrow> ('meta, 'comment, 'edit, 'range, 'output, 'config, 'result) NotebookUpdate)
   \<Rightarrow> ('meta, 'comment, 'edit, 'range, 'output, 'config, 'result) handler
   \<Rightarrow> ('meta, 'comment, 'edit, 'range, 'output, 'config, 'result) NotebookUpdate
   \<Rightarrow> ('meta, 'comment, 'edit, 'range, 'output, 'config, 'result) NotebookUpdate
       \<times> ('meta, 'comment, 'edit, 'range, 'output, 'config, 'result) handler" where
  "rebaseUpdate rebase h upd =
     (let h1 = h\<lparr>globalVersion := update_globalVersion upd\<rparr>
      in if update_localVersion upd < localVersion h1
         then (let prevUpdates = EditBuffer_range (edits h1) (update_localVersion upd) (localVersion h1);
                   h2 = h1\<lparr>edits := EditBuffer_discard (edits h1) (update_localVersion upd)\<rparr>
               in (rebase upd prevUpdates, h2))
         else (upd, h1))"

text \<open>
  The handler as \<^verbatim>\<open>NotebookStateHandler\<close>'s constructor creates it:
  \<^verbatim>\<open>new NotebookUpdateHandler(this, -1, -1, new EditBuffer())\<close>.
\<close>

definition initialHandler ::
  "('meta, 'comment, 'edit, 'range, 'output, 'config, 'result) handler" where
  "initialHandler = \<lparr>globalVersion = -1, localVersion = -1, edits = [], published = []\<rparr>"


subsection \<open>Sequences of handler operations\<close>

text \<open>
  One constructor per way of driving the handler: its public methods, the
  observers of a watched cell, a direct \<^verbatim>\<open>addUpdate\<close> and \<^verbatim>\<open>rebaseUpdate\<close>. \<open>perform\<close>
  gives the handler as the call leaves it, whether or not the call raised.
\<close>

datatype ('meta, 'comment, 'edit, 'range, 'output, 'config, 'result) call =
    CallInsertCell int string string 'meta int
  | CallDeleteCell int
  | CallUpdateCell int "'edit list option" "'meta option"
  | CallCreateComment int 'comment
  | CallDeleteComment int string
  | CallUpdateComment int string 'range string
  | CallSetCellOutput int 'output
  | CallUpdateConfig 'config
  | CallOutputAdded int "'output list"
  | CallLanguageChanged int string
  | CallOutgoingEdits int "'edit list"
  | CallMetadataChanged int 'meta
  | CallAddUpdate "('meta, 'comment, 'edit, 'range, 'output, 'config, 'result) NotebookUpdate"
  | CallRebaseUpdate "('meta, 'comment, 'edit, 'range, 'output, 'config, 'result) NotebookUpdate"

fun perform ::
  "(('meta, 'comment, 'edit, 'range, 'output, 'config, 'result) NotebookUpdate
     \<Rightarrow> ('meta, 'comment, 'edit, 'range, 'output, 'config, 'result) NotebookUpdate list
     \<Rightarrow> ('meta, 'comment, 'edit, 'range, 'output, 'config, 'result) NotebookUpdate)
   \<Rightarrow> ('meta, 'comment, 'edit, 'range, 'output, 'config, 'result) handler
   \<Rightarrow> ('meta, 'comment, 'edit, 'range, 'output, 'config, 'result) call
   \<Rightarrow> ('meta, 'comment, 'edit, 'range, 'output, 'config, 'result) handler" where
  "perform rebase h (CallInsertCell cellId language content metadata prevId) =
     snd (updateHandler_insertCell h cellId language content metadata prevId)"
| "perform rebase h (CallDeleteCell i) = snd (updateHandler_deleteCell h i)"
| "perform rebase h (CallUpdateCell i es m) = snd (updateCell h i es m)"
| "perform rebase h (CallCreateComment cellId comment) = snd (createComment h cellId comment)"
| "perform rebase h (CallDeleteComment cellId commentId) = snd (deleteComment h cellId commentId)"
| "perform rebase h (CallUpdateComment cellId commentId r content) =
     snd (updateComment h cellId commentId r content)"
| "perform rebase h (CallSetCellOutput cellId out) = snd (setCellOutput h cellId out)"
| "perform rebase h (CallUpdateConfig config) = snd (updateConfig h config)"
| "perform rebase h (CallOutputAdded i added) = snd (watchCell_output h i added)"
| "perform rebase h (CallLanguageChanged i lang) = snd (watchCell_language h i lang)"
| "perform rebase h (CallOutgoingEdits i es) = snd (watchCell_outgoingEdits h i es)"
| "perform rebase h (CallMetadataChanged i m) = snd (watchCell_metadata h i m)"
| "perform rebase h (CallAddUpdate upd) = snd (addUpdate h upd)"
| "perform rebase h (CallRebaseUpdate upd) = snd (rebaseUpdate rebase h upd)"

definition performAll ::
  "(('meta, 'comment, 'edit, 'range, 'output, 'config, 'result) NotebookUpdate
     \<Rightarrow> ('meta, 'comment, 'edit, 'range, 'output, 'config, 'result) NotebookUpdate list
     \<Rightarrow> ('meta, 'comment, 'edit, 'range, 'output, 'config, 'result) NotebookUpdate)
   \<Rightarrow> ('meta, 'comment, 'edit, 'range, 'output, 'config, 'result) handler
   \<Rightarrow> ('meta, 'comment, 'edit, 'range, 'output, 'config, 'result) call list
   \<Rightarrow> ('meta, 'comment, 'edit, 'range, 'output, 'config, 'result) handler" where
  "performAll rebase h calls = foldl (perform rebase) h calls"

text \<open>
  A call published one message when it returned normally and left the list of
  published updates longer by exactly one message, tagged with \<open>localVersion\<close>
  as the call leaves it.
\<close>

definition publishedOne ::
  "('meta, 'comment, 'edit, 'range, 'output, 'config, 'result) handler
   \<Rightarrow> (js_error + unit) \<times> ('meta, 'comment, 'edit, 'range, 'output, 'config, 'result) handler
   \<Rightarrow> bool" where
  "publishedOne h r \<longleftrightarrow>
     fst r = Inr ()
     \<and> length (published (snd r)) = Suc (length (published h))
     \<and> take (length (published h)) (published (snd r)) = published h
     \<and> update_localVersion (last (published (snd r))) = localVersion (snd r)"

text \<open>
  The buffer is in order when its versions never go down along the log and none
  exceeds the handler's counter. Every handler built from \<open>initialHandler\<close> by
  the calls above is in this shape.
\<close>

definition edits_ordered :: "'u NotebookUpdateHandler \<Rightarrow> bool" where
  "edits_ordered h \<longleftrightarrow>
     sorted (map fst (edits h)) \<and> list_all (\<lambda>entry. fst entry \<le> localVersion h) (edits h)"

section \<open>The update algebra\<close>

text \<open>
  The second part follows the update classes (\<^verbatim>\<open>UpdateLike\<close>, \<^verbatim>\<open>UpdateResult\<close>
  and the subclasses of \<^verbatim>\<open>Update\<close>). The classes are generic, and the
  embedding is typed the way they are: an array update works on arrays, a key
  update on plain records. A JavaScript value that may be \<^verbatim>\<open>undefined\<close> is an
  \<open>option\<close>, \<open>None\<close> being \<^verbatim>\<open>undefined\<close>; array elements and record fields are
  such values. Strict equality \<^verbatim>\<open>===\<close> is equality of the model's values, so
  an object stands for its identity and \<^verbatim>\<open>NaN\<close> is not modelled. An index is
  an integer; where the source can only meet a position of the array it is a
  natural number.

  \<^verbatim>\<open>applyMutate\<close> changes its argument in place and, in one class, its
  receiver. A model of it returns three things: the receiver after the call,
  the argument after the call, and what the call returned or raised.
\<close>

record ('u, 's, 'r) applied =
  receiver :: 'u
  argument :: 's
  outcome :: "js_error + 'r"

text \<open>
  The \<^verbatim>\<open>update\<close> field of a result refers to an update object: the frozen
  \<^verbatim>\<open>NoUpdate\<close>, the shared \<^verbatim>\<open>Destroy.Instance\<close>, a \<^verbatim>\<open>SetValue\<close> made on the spot
  by \<^verbatim>\<open>setValue\<close> (\<^verbatim>\<open>__getProxyTarget\<close> only unwraps a read-only proxy and is the
  identity here), or the receiver \<^verbatim>\<open>this\<close>.
\<close>

datatype ('u, 's) UpdateLike = NoUpdate | Destroy_Instance | setValue 's | This 'u

record ('u, 's, 'p, 'f) UpdateResult =
  update :: "('u, 's) UpdateLike"
  newValue :: 's
  oldValue :: "'s option"
  removedValues :: "'p option"
  addedValues :: "'p option"
  fieldUpdates :: "'f option"

definition noChange :: "'s \<Rightarrow> ('u, 's, 'p, 'f) UpdateResult" where
  "noChange v =
     \<lparr>update = NoUpdate, newValue = v, oldValue = None, removedValues = None,
      addedValues = None, fieldUpdates = None\<rparr>"

text \<open>
  \<^verbatim>\<open>AllDestroyedUpdates\<close> is a proxy that answers every key with a destroyed
  result whose field updates are the proxy again.
\<close>

datatype AllDestroyedUpdates = AllDestroyedUpdates

definition destroyed :: "'v option \<Rightarrow> ('u, 'v option, 'p, AllDestroyedUpdates) UpdateResult" where
  "destroyed v =
     \<lparr>update = Destroy_Instance, newValue = None, oldValue = Some v, removedValues = None,
      addedValues = None, fieldUpdates = Some AllDestroyedUpdates\<rparr>"

definition AllDestroyedUpdates_get ::
  "AllDestroyedUpdates \<Rightarrow> 'k \<Rightarrow> ('u, 'v option, 'p, AllDestroyedUpdates) UpdateResult" where
  "AllDestroyedUpdates_get target p =
     \<lparr>update = Destroy_Instance, newValue = None, oldValue = None, removedValues = None,
      addedValues = None, fieldUpdates = Some AllDestroyedUpdates\<rparr>"

text \<open>
  \<^verbatim>\<open>setTo(value, oldValue?)\<close>; a missing \<^verbatim>\<open>oldValue\<close> is \<^verbatim>\<open>undefined\<close>.
\<close>

definition setTo :: "'v option \<Rightarrow> 'v option \<Rightarrow> ('u, 'v option, 'p, 'f) UpdateResult" where
  "setTo v old =
     (if old = v then noChange v
      else \<lparr>update = setValue v, newValue = v, oldValue = Some old, removedValues = None,
            addedValues = None, fieldUpdates = None\<rparr>)"

subsection \<open>Arrays\<close>

type_synonym 'v array = "'v option list"

text \<open>\<^verbatim>\<open>arr[i]\<close>: \<^verbatim>\<open>undefined\<close> outside the array.\<close>

definition js_index :: "'v array \<Rightarrow> int \<Rightarrow> 'v option" where
  "js_index arr i = (if 0 \<le> i \<and> i < int (length arr) then arr ! nat i else None)"

text \<open>
  \<^verbatim>\<open>arr.splice(start, deleteCount, ...items)\<close> for a start that is an array
  position: the start is clamped to the length, the removed elements are
  returned and the array is left with the items in their place.
\<close>

definition splice_array :: "'a list \<Rightarrow> nat \<Rightarrow> nat \<Rightarrow> 'a list \<Rightarrow> 'a list \<times> 'a list" where
  "splice_array arr start deleteCount items =
     (let s = min start (length arr)
      in (take deleteCount (drop s arr), take s arr @ items @ drop (s + deleteCount) arr))"

text \<open>
  \<^verbatim>\<open>arrayFieldUpdates\<close> returns a proxy over the mutated array. The record holds
  what the proxy closes over; its traps are the functions below. The cache
  \<^verbatim>\<open>target\<close> only stores what \<^verbatim>\<open>get\<close> computes.
\<close>

record 'v arrayFieldUpdates =
  arr :: "'v array"
  minIdx :: int
  maxIdx :: int
  indexShift :: int

type_synonym 'v elementResult = "(unit, 'v option, unit, unit) UpdateResult"

definition arrayFieldUpdates :: "'v array \<Rightarrow> int \<Rightarrow> int \<Rightarrow> int \<Rightarrow> 'v arrayFieldUpdates" where
  "arrayFieldUpdates a lo hi shift = \<lparr>arr = a, minIdx = lo, maxIdx = hi, indexShift = shift\<rparr>"

definition arrayFieldUpdates_get :: "'v arrayFieldUpdates \<Rightarrow> int \<Rightarrow> 'v elementResult" where
  "arrayFieldUpdates_get p idx =
     (if idx \<ge> minIdx p \<and> idx \<le> maxIdx p
      then (let old = js_index (arr p) (idx - indexShift p);
                new = js_index (arr p) idx
            in \<lparr>update = setValue new, newValue = new, oldValue = Some old,
                removedValues = None, addedValues = None, fieldUpdates = None\<rparr>)
      else noChange (js_index (arr p) idx))"

definition arrayFieldUpdates_has :: "'v arrayFieldUpdates \<Rightarrow> int \<Rightarrow> bool" where
  "arrayFieldUpdates_has p idx \<longleftrightarrow> idx \<ge> minIdx p \<and> idx \<le> maxIdx p"

text \<open>
  The \<^verbatim>\<open>ownKeys\<close> trap hands back the numbers from \<^verbatim>\<open>minIdx\<close> to \<^verbatim>\<open>maxIdx\<close>. A proxy
  accepts only strings and symbols as keys and raises a \<^verbatim>\<open>TypeError\<close> on a
  number, so listing the keys succeeds only for an empty range.
\<close>

definition arrayFieldUpdates_ownKeys :: "'v arrayFieldUpdates \<Rightarrow> js_error + int list" where
  "arrayFieldUpdates_ownKeys p = (if minIdx p \<le> maxIdx p then Inl TypeError else Inr [])"

type_synonym ('u, 'i, 'v) arrayResult =
  "('u, 'v array, 'i \<rightharpoonup> 'v option, 'v arrayFieldUpdates) UpdateResult"

text \<open>
  Where \<^verbatim>\<open>splice\<close> starts for a start that is any integer: a negative start
  counts from the end of the array and stops at its beginning, any other is
  clamped to its length.
\<close>

definition splice_start :: "nat \<Rightarrow> int \<Rightarrow> nat" where
  "splice_start len start =
     (if start < 0 then nat (max (int len + start) 0) else min (nat start) len)"

text \<open>
  \<^verbatim>\<open>RemoveValue\<close>: the value and the index it is expected at. The index is a
  number of the source and may be negative: \<^verbatim>\<open>arr[idx]\<close> is then \<^verbatim>\<open>undefined\<close>,
  while \<^verbatim>\<open>arr.splice(idx, 1)\<close> counts from the end.
\<close>

datatype 'v RemoveValue = RemoveValue (RemoveValue_value: "'v option") (RemoveValue_index: int)

definition RemoveValue_applyMutate ::
  "'v RemoveValue \<Rightarrow> 'v array
   \<Rightarrow> ('v RemoveValue, 'v array, ('v RemoveValue, int, 'v) arrayResult) applied" where
  "RemoveValue_applyMutate u a =
     (let idx = RemoveValue_index u;
          len = length a
      in if js_index a idx \<noteq> RemoveValue_value u
         then \<lparr>receiver = u, argument = a, outcome = Inl RemoveValueNoLongerValid\<rparr>
         else (let a' = snd (splice_array a (splice_start (length a) idx) 1 [])
               in \<lparr>receiver = u, argument = a',
                   outcome = Inr
                     \<lparr>update = This u, newValue = a', oldValue = None,
                      removedValues = Some [RemoveValue_index u \<mapsto> RemoveValue_value u],
                      addedValues = None,
                      fieldUpdates = Some (arrayFieldUpdates a' idx (int len) (-1))\<rparr>\<rparr>))"

text \<open>
  \<^verbatim>\<open>InsertValue\<close>: the value and an optional target position. The test
  \<^verbatim>\<open>if (this._targetIndex)\<close> is one of truthiness: it fails for a missing
  position and for position \<open>0\<close>. In that branch the receiver's
  \<^verbatim>\<open>_targetIndex\<close> is assigned.
\<close>

datatype 'v InsertValue =
  InsertValue (InsertValue_value: "'v option") (InsertValue_targetIndex: "nat option")

definition InsertValue_applyMutate ::
  "'v InsertValue \<Rightarrow> 'v array option
   \<Rightarrow> ('v InsertValue, 'v array option, ('v InsertValue, nat, 'v) arrayResult) applied" where
  "InsertValue_applyMutate u a0 =
     (let a = (case a0 of None \<Rightarrow> [] | Some x \<Rightarrow> x);
          targetIndex = (case InsertValue_targetIndex u of None \<Rightarrow> length a | Some i \<Rightarrow> i);
          (u', a') =
            (case InsertValue_targetIndex u of
               Some (Suc n) \<Rightarrow> (u, snd (splice_array a (Suc n) 0 [InsertValue_value u]))
             | _ \<Rightarrow> (InsertValue (InsertValue_value u) (Some (length a)), a @ [InsertValue_value u]))
      in \<lparr>receiver = u',
          argument = (case a0 of None \<Rightarrow> None | Some x \<Rightarrow> Some a'),
          outcome = Inr
            \<lparr>update = This u', newValue = a', oldValue = None, removedValues = None,
             addedValues = Some [targetIndex \<mapsto> InsertValue_value u],
             fieldUpdates = Some (arrayFieldUpdates a' (int targetIndex) (int (length a')) 1)\<rparr>\<rparr>)"

subsection \<open>Records\<close>

text \<open>
  A state that holds a record may also be \<^verbatim>\<open>null\<close> or \<^verbatim>\<open>undefined\<close>. For the
  updates that only read and write fields, a record is a finite map from keys
  to values.
\<close>

type_synonym ('k, 'v) object = "'k \<rightharpoonup> 'v option"

datatype 'o nullable = Null | Undefined | Object 'o

type_synonym ('u, 'k, 'v, 'c) objectResult =
  "('u, ('k, 'v) object nullable, 'k \<rightharpoonup> 'v option, 'k \<rightharpoonup> 'c) UpdateResult"

type_synonym 'v destroyedResult = "(unit, 'v option, unit, AllDestroyedUpdates) UpdateResult"

text \<open>
  \<^verbatim>\<open>RemoveKey\<close> asks \<^verbatim>\<open>key in value\<close> and deletes, and both depend on more than the
  object's own fields. For it an object has its own properties, the
  properties it inherits along its prototype chain, and the set of own keys
  that are not configurable (those of a frozen or sealed object, the \<^verbatim>\<open>length\<close> of an
  array). \<^verbatim>\<open>key in value\<close> holds for own and inherited keys and raises a
  \<^verbatim>\<open>TypeError\<close> on a primitive; \<^verbatim>\<open>value[key]\<close> reads the own property before the
  inherited one; \<^verbatim>\<open>delete value[key]\<close> in the strict code of a class does nothing
  for a key that is not an own one, and raises a \<^verbatim>\<open>TypeError\<close> for an own key
  that is not configurable. Accessor properties and proxies are not modelled.
\<close>

record ('k, 'v) js_object =
  own :: "'k \<rightharpoonup> 'v option"
  inherited :: "'k \<rightharpoonup> 'v option"
  nonConfigurable :: "'k set"

datatype ('p, 'k, 'v) keyed =
  NullValue | UndefinedValue | PrimitiveValue 'p | ObjectValue "('k, 'v) js_object"

definition has_property :: "('k, 'v) js_object \<Rightarrow> 'k \<Rightarrow> bool" where
  "has_property obj k \<longleftrightarrow> own obj k \<noteq> None \<or> inherited obj k \<noteq> None"

definition get_property :: "('k, 'v) js_object \<Rightarrow> 'k \<Rightarrow> 'v option" where
  "get_property obj k =
     (case own obj k of
        Some x \<Rightarrow> x
      | None \<Rightarrow> (case inherited obj k of Some x \<Rightarrow> x | None \<Rightarrow> None))"

definition delete_property :: "('k, 'v) js_object \<Rightarrow> 'k \<Rightarrow> js_error + ('k, 'v) js_object" where
  "delete_property obj k =
     (case own obj k of
        None \<Rightarrow> Inr obj
      | Some x \<Rightarrow>
          (if k \<in> nonConfigurable obj then Inl TypeError
           else Inr (obj\<lparr>own := (own obj)(k := None)\<rparr>)))"

type_synonym ('u, 'p, 'k, 'v) keyedResult =
  "('u, ('p, 'k, 'v) keyed, 'k \<rightharpoonup> 'v option, 'k \<rightharpoonup> 'v destroyedResult) UpdateResult"

text \<open>\<^verbatim>\<open>RemoveKey\<close>: the key and the optional private \<^verbatim>\<open>_value\<close>.\<close>

datatype ('k, 'v) RemoveKey = RemoveKey (RemoveKey_key: 'k) (RemoveKey_value: "'v option")

definition RemoveKey_applyMutate ::
  "('k, 'v) RemoveKey \<Rightarrow> ('p, 'k, 'v) keyed
   \<Rightarrow> (('k, 'v) RemoveKey, ('p, 'k, 'v) keyed,
       (('k, 'v) RemoveKey, 'p, 'k, 'v) keyedResult) applied" where
  "RemoveKey_applyMutate u v =
     (case v of
        NullValue \<Rightarrow> \<lparr>receiver = u, argument = v, outcome = Inr (noChange v)\<rparr>
      | UndefinedValue \<Rightarrow> \<lparr>receiver = u, argument = v, outcome = Inr (noChange v)\<rparr>
      | PrimitiveValue p \<Rightarrow> \<lparr>receiver = u, argument = v, outcome = Inl TypeError\<rparr>
      | ObjectValue obj \<Rightarrow>
          (if \<not> has_property obj (RemoveKey_key u)
           then \<lparr>receiver = u, argument = v, outcome = Inr (noChange v)\<rparr>
           else (let old = get_property obj (RemoveKey_key u)
                 in case delete_property obj (RemoveKey_key u) of
                      Inl e \<Rightarrow> \<lparr>receiver = u, argument = v, outcome = Inl e\<rparr>
                    | Inr obj' \<Rightarrow>
                        \<lparr>receiver = u, argument = ObjectValue obj',
                         outcome = Inr
                           \<lparr>update = This u, newValue = ObjectValue obj', oldValue = None,
                            removedValues = Some [RemoveKey_key u \<mapsto> old],
                            addedValues = None,
                            fieldUpdates = Some [RemoveKey_key u \<mapsto> destroyed old]\<rparr>\<rparr>)))"

section \<open>The notebook state handler\<close>

text \<open>
  \<^verbatim>\<open>CellState\<close> and \<^verbatim>\<open>NotebookState\<close> with all their fields. The types declared in
  other files and never inspected here are type parameters. Of the cell
  metadata only \<^verbatim>\<open>hideSource\<close> is read; the rest of it is the extension of the
  record. \<^verbatim>\<open>Outputs\<close> is an array of outputs with an optional \<^verbatim>\<open>clear\<close> flag.
\<close>

record CellMetadata =
  hideSource :: bool

record 'output Outputs =
  items :: "'output list"
  clear :: "bool option"

definition outputs :: "'output list \<Rightarrow> bool option \<Rightarrow> 'output Outputs" where
  "outputs os c = \<lparr>items = os, clear = c\<rparr>"

record ('m, 'comment, 'output, 'result, 'cerr, 'rerr, 'edit, 'presence, 'range, 'hl) CellState =
  id' :: int
  language :: string
  content :: string
  metadata :: "'m CellMetadata_scheme"
  comments :: "string \<rightharpoonup> 'comment"
  output' :: "'output Outputs"
  results :: "'result list"
  compileErrors :: "'cerr list"
  runtimeError :: "'rerr option"
  incomingEdits :: "'edit list"
  outgoingEdits :: "'edit list"
  presence :: "'presence list"
  editing :: bool
  selected :: bool
  error :: bool
  running :: bool
  queued :: bool
  currentSelection :: "'range option"
  currentHighlight :: "'hl option"

record ('m, 'comment, 'output, 'result, 'cerr, 'rerr, 'edit, 'presence, 'range, 'hl,
        'nbconfig, 'kernel, 'completion, 'signature, 'apresence, 'stream) NotebookState =
  path :: string
  cells :: "int \<rightharpoonup> ('m, 'comment, 'output, 'result, 'cerr, 'rerr, 'edit, 'presence, 'range, 'hl) CellState"
  cellOrder :: "int list"
  config :: 'nbconfig
  kernel :: 'kernel
  activeCellId :: "int option"
  activeCompletion :: "'completion option"
  activeSignature :: "'signature option"
  activePresence :: "int \<rightharpoonup> 'apresence"
  activeStreams :: "int \<rightharpoonup> 'stream list"

text \<open>
  \<^verbatim>\<open>NotebookStateHandler\<close> holds the notebook state and owns the update handler.
  This record serves the methods that read the state and call the update
  handler, \<^verbatim>\<open>insertCell\<close> and \<^verbatim>\<open>deleteCell\<close>. The methods that store a new state,
  \<^verbatim>\<open>selectCell\<close> and \<^verbatim>\<open>setCellLanguage\<close>, work on the state container below, which
  has the observers of the constructor.
\<close>

record ('s, 'u) NotebookStateHandler =
  state :: 's
  updateHandler :: "'u NotebookUpdateHandler"

text \<open>
  Modelled from the spec: \<^verbatim>\<open>mapValues\<close> (\<^verbatim>\<open>util/helpers\<close>) is not part of the sources at
  hand; it applies a function to every value of a record and keeps the keys.
\<close>

definition mapValues :: "('k \<rightharpoonup> 'a) \<Rightarrow> ('a \<Rightarrow> 'b) \<Rightarrow> ('k \<rightharpoonup> 'b)" where
  "mapValues obj f = (\<lambda>k. map_option f (obj k))"

subsection \<open>The state container and the observers of the constructor\<close>

text \<open>
  Modelled from the spec: \<^verbatim>\<open>StateHandler\<close> (\<^verbatim>\<open>state/state_handler\<close>), with its
  \<^verbatim>\<open>update\<close>, \<^verbatim>\<open>update1\<close>, \<^verbatim>\<open>view\<close>, \<^verbatim>\<open>lens\<close> and observers, is not part of the
  sources at hand. The specification has a container that owns one current
  value and its observers. An update replaces the value and then notifies the
  observers synchronously, in the order they subscribed. A notification is
  suppressed when the new value equals the old one structurally, and a view
  forwards only when its own value differs. An observer removed during a
  dispatch is not called again. An update runs to completion, notifications
  included, before another mutation proceeds, so an update that an observer
  asks for runs after the dispatch that asked for it.

  The record holds the current value, the log of the values stored so far,
  oldest first, which is what an observer of the container gets to see, and
  the cells that have a live deselect watcher, in the order the watchers were
  registered. The observers here are the ones that the constructor of
  \<^verbatim>\<open>NotebookStateHandler\<close> registers. The observers of the update handler
  publish messages and store no notebook state (\<open>watchCell_language\<close> and the
  others above); observers registered by other components are outside the
  source.
\<close>

record 's StateContainer =
  current :: 's
  stored :: "'s list"
  watching :: "int list"

text \<open>
  \<^verbatim>\<open>compare\<close> is \<^verbatim>\<open>deepEquals\<close> (\<^verbatim>\<open>util/helpers\<close>, modelled from the spec as structural
  equality).
\<close>

definition NotebookStateHandler_compare :: "'s \<Rightarrow> 's \<Rightarrow> bool" where
  "NotebookStateHandler_compare s1 s2 \<longleftrightarrow> s1 = s2"

text \<open>
  The observer of the view of \<^verbatim>\<open>activeCellId\<close>. \<^verbatim>\<open>if (cellId)\<close> is a test of
  truthiness: it fails for \<^verbatim>\<open>undefined\<close> and for the id \<open>0\<close>. Otherwise a watcher
  is added to the view of that cell.
\<close>

definition activeCellId_observer where
  "activeCellId_observer h cellId =
     (case cellId of
        None \<Rightarrow> h
      | Some c \<Rightarrow> (if c = 0 then h else h\<lparr>watching := watching h @ [c]\<rparr>))"

text \<open>
  The watchers, run over the list of them as it is when the dispatch starts.
  The view of a cell forwards when the cell differs from the one before. The
  watcher reads \<^verbatim>\<open>s.selected\<close>, which raises a \<^verbatim>\<open>TypeError\<close> when the cell is gone;
  an error ends the dispatch. For a cell that is no longer selected the watcher
  removes itself and asks for \<^verbatim>\<open>update1("activeCellId", () => undefined)\<close>. The
  number returned counts these requests.
\<close>

fun activeCellWatchers where
  "activeCellWatchers old new [] h = (Inr (), h, 0)"
| "activeCellWatchers old new (c # cs) h =
     (if NotebookStateHandler_compare (cells new c) (cells old c)
      then activeCellWatchers old new cs h
      else (case cells new c of
              None \<Rightarrow> (Inl TypeError, h, 0)
            | Some cell \<Rightarrow>
                (if selected cell then activeCellWatchers old new cs h
                 else (case activeCellWatchers old new cs
                              (h\<lparr>watching := remove1 c (watching h)\<rparr>) of
                         (r, h', asked) \<Rightarrow> (r, h', Suc asked)))))"

text \<open>
  One update and its dispatch: the producer's result is stored and logged
  unless it equals the current value; then the \<^verbatim>\<open>cells\<close> lens, subscribed first,
  notifies the watchers, and the view of \<^verbatim>\<open>activeCellId\<close>, subscribed after it,
  notifies its observer when the id has changed.
\<close>

definition update_once where
  "update_once h producer =
     (let old = current h;
          new = producer old
      in if NotebookStateHandler_compare new old then (Inr (), h, 0)
         else (let h1 = h\<lparr>current := new, stored := stored h @ [new]\<rparr>
               in case activeCellWatchers old new (watching h1) h1 of
                    (Inl e, h2, asked) \<Rightarrow> (Inl e, h2, asked)
                  | (Inr u, h2, asked) \<Rightarrow>
                      (Inr u,
                       if NotebookStateHandler_compare (activeCellId new) (activeCellId old)
                       then h2
                       else activeCellId_observer h2 (activeCellId new),
                       asked)))"

text \<open>
  The updates that the watchers asked for, each one \<^verbatim>\<open>activeCellId\<close> set to
  \<^verbatim>\<open>undefined\<close>. Such an update changes no cell, so no watcher acts in its
  dispatch and it asks for nothing further.
\<close>

fun deselected where
  "deselected 0 h = (Inr (), h)"
| "deselected (Suc n) h =
     (case update_once h (\<lambda>s. s\<lparr>activeCellId := None\<rparr>) of
        (Inl e, h', asked) \<Rightarrow> (Inl e, h')
      | (Inr u, h', asked) \<Rightarrow> deselected n h')"

text \<open>\<^verbatim>\<open>update\<close>: the update itself, then the updates its dispatch asked for.\<close>

definition NotebookStateHandler_update where
  "NotebookStateHandler_update h producer =
     (case update_once h producer of
        (Inl e, h', asked) \<Rightarrow> (Inl e, h')
      | (Inr u, h', asked) \<Rightarrow> deselected asked h')"

text \<open>
  \<^verbatim>\<open>update1\<close> of the \<^verbatim>\<open>cells\<close> lens. The specification has a write through a
  lens update the key in the parent: the producer's result is stored under the
  key and the other keys are left alone. For a key without a cell the producer
  would receive \<^verbatim>\<open>undefined\<close>; what comes of that is not a \<^verbatim>\<open>CellState\<close>, and the
  model gives \<open>None\<close> there.
\<close>

definition cellsHandler_update1 where
  "cellsHandler_update1 h key f =
     (case cells (current h) key of
        None \<Rightarrow> None
      | Some cell \<Rightarrow>
          Some (NotebookStateHandler_update h (\<lambda>s. s\<lparr>cells := (cells s)(key \<mapsto> f cell)\<rparr>)))"

text \<open>\<^verbatim>\<open>xs[i]\<close> and \<^verbatim>\<open>xs.indexOf(x)\<close> on an array of numbers.\<close>

definition array_at :: "'a list \<Rightarrow> int \<Rightarrow> 'a option" where
  "array_at xs i = (if 0 \<le> i \<and> i < int (length xs) then Some (xs ! nat i) else None)"

fun indexOf :: "'a list \<Rightarrow> 'a \<Rightarrow> int" where
  "indexOf [] x = -1"
| "indexOf (y # ys) x =
     (if y = x then 0 else (let i = indexOf ys x in if i < 0 then -1 else i + 1))"


subsection \<open>Selecting a cell\<close>

datatype direction = Above | Below

datatype selectCellOptions =
  Options (relative: "direction option") (skipHiddenCode: "bool option")
          (options_editing: "bool option")

text \<open>\<^verbatim>\<open>this.state.cells[id]?.metadata.hideSource\<close>, as a condition.\<close>

definition hiddenSource where
  "hiddenSource s i =
     (case i of
        None \<Rightarrow> False
      | Some k \<Rightarrow> (case cells s k of None \<Rightarrow> False | Some cell \<Rightarrow> hideSource (metadata cell)))"

text \<open>The two \<^verbatim>\<open>while\<close> loops of \<^verbatim>\<open>selectCell\<close>; each returns the final \<^verbatim>\<open>id\<close>.\<close>

function skipAbove where
  "skipAbove s prevIdx i =
     (if prevIdx > -1 \<and> hiddenSource s i
      then skipAbove s (prevIdx - 1) (array_at (cellOrder s) (prevIdx - 1))
      else i)"
  by pat_completeness auto
termination
  by (relation "measure (\<lambda>(s, prevIdx, i). nat (prevIdx + 1))") auto

function skipBelow where
  "skipBelow s nextIdx i =
     (if nextIdx < int (length (cellOrder s)) \<and> hiddenSource s i
      then skipBelow s (nextIdx + 1) (array_at (cellOrder s) (nextIdx + 1))
      else i)"
  by pat_completeness auto
termination
  by (relation "measure (\<lambda>(s, nextIdx, i). nat (int (length (cellOrder s)) - nextIdx))") auto

text \<open>Whether a call asked for editing: \<^verbatim>\<open>options?.editing ?? false\<close>.\<close>

definition editingRequested :: "selectCellOptions option \<Rightarrow> bool" where
  "editingRequested options \<longleftrightarrow>
     (case options of
        None \<Rightarrow> False
      | Some opts \<Rightarrow> (case options_editing opts of None \<Rightarrow> False | Some b \<Rightarrow> b))"

text \<open>
  \<^verbatim>\<open>selectCell\<close> returns the id it resolved, once the update and the updates
  asked for by the watchers have run.
\<close>

definition selectCell where
  "selectCell h selected' options =
     (let s = current h;
          rel = (case options of None \<Rightarrow> None | Some opts \<Rightarrow> relative opts);
          skip = (case options of None \<Rightarrow> False
                  | Some opts \<Rightarrow> (case skipHiddenCode opts of None \<Rightarrow> False | Some b \<Rightarrow> b));
          edit = editingRequested options;
          id1 = (case selected' of
                   None \<Rightarrow> None
                 | Some anchor \<Rightarrow>
                     (let anchorIdx = indexOf (cellOrder s) anchor
                      in if rel = Some Above
                         then (let prevIdx = anchorIdx - 1;
                                   i = array_at (cellOrder s) prevIdx
                               in if skip then skipAbove s prevIdx i else i)
                         else if rel = Some Below
                         then (let nextIdx = anchorIdx + 1;
                                   i = array_at (cellOrder s) nextIdx
                               in if skip then skipBelow s nextIdx i else i)
                         else Some anchor));
          id2 = (case id1 of
                   None \<Rightarrow> (if selected' = Some (-1) then Some 0 else selected')
                 | Some i \<Rightarrow> Some i)
      in case NotebookStateHandler_update h
                (\<lambda>s. s\<lparr>activeCellId := id2,
                        cells := mapValues (cells s)
                          (\<lambda>cell. cell\<lparr>selected := (Some (id' cell) = id2),
                                        editing := (Some (id' cell) = id2 \<and> edit)\<rparr>)\<rparr>) of
           (Inl e, h') \<Rightarrow> (Inl e, h')
         | (Inr u, h') \<Rightarrow> (Inr id2, h'))"

subsection \<open>Changing a cell's language\<close>

text \<open>
  The producer that \<^verbatim>\<open>setCellLanguage\<close> hands to \<^verbatim>\<open>update1\<close>, and the method,
  which is that one call.
\<close>

definition setCellLanguage_producer where
  "setCellLanguage_producer lang cell =
     cell\<lparr>language := lang,
          output' := (if lang = ''text'' then outputs [] None else output' cell),
          results := (if lang = ''text'' then [] else results cell),
          error := (if lang = ''text'' then False else error cell),
          compileErrors := (if lang = ''text'' then [] else compileErrors cell),
          runtimeError := (if lang = ''text'' then None else runtimeError cell)\<rparr>"

definition setCellLanguage where
  "setCellLanguage h i lang = cellsHandler_update1 h i (setCellLanguage_producer lang)"

subsection \<open>Inserting and deleting a cell\<close>

datatype 'meta anchor =
  Anchor (anchor_id: int) (anchor_language: string) (anchor_metadata: 'meta)
         (anchor_content: "string option")



definition deleteCell where
  "deleteCell nb given =
     (case (case given of None \<Rightarrow> activeCellId (state nb) | Some i \<Rightarrow> Some i) of
        None \<Rightarrow> (Inr (), nb)
      | Some i \<Rightarrow>
          (let (r, uh) = updateHandler_deleteCell (updateHandler nb) i
           in (r, nb\<lparr>updateHandler := uh\<rparr>)))"

subsection \<open>Scenarios of the specification\<close>

text \<open>
  A cell with nothing in it and a notebook made of such cells, one per id of
  the given order, with no active cell: the starting points of the scenarios
  in the specification's list of testable properties.
\<close>

definition emptyCell ::
  "int \<Rightarrow> (unit, unit, string, unit, unit, unit, unit, unit, unit, unit) CellState" where
  "emptyCell i =
     \<lparr>id' = i, language = ''scala'', content = [], metadata = \<lparr>hideSource = False\<rparr>,
      comments = Map.empty, output' = outputs [] None, results = [], compileErrors = [],
      runtimeError = None, incomingEdits = [], outgoingEdits = [], presence = [],
      editing = False, selected = False, error = False, running = False, queued = False,
      currentSelection = None, currentHighlight = None\<rparr>"

definition notebookWith ::
  "int list \<Rightarrow> (unit, unit, string, unit, unit, unit, unit, unit, unit, unit,
                unit, unit, unit, unit, unit, unit) NotebookState" where
  "notebookWith order =
     \<lparr>path = ''notebook.ipynb'',
      cells = (\<lambda>k. if k \<in> set order then Some (emptyCell k) else None),
      cellOrder = order, config = (), kernel = (), activeCellId = None,
      activeCompletion = None, activeSignature = None, activePresence = Map.empty,
      activeStreams = Map.empty\<rparr>"


text \<open>
  The container over such a notebook as the constructor leaves it: nothing
  stored yet and no watcher.
\<close>

definition containerWith ::
  "int list \<Rightarrow> (unit, unit, string, unit, unit, unit, unit, unit, unit, unit,
                unit, unit, unit, unit, unit, unit) NotebookState StateContainer" where
  "containerWith order = \<lparr>current = notebookWith order, stored = [], watching = []\<rparr>"

section \<open>The remaining update classes\<close>

text \<open>
  Every subclass of \<^verbatim>\<open>Update\<close> also carries the constant field
  \<^verbatim>\<open>isStateUpdate = true\<close>, declared \<^verbatim>\<open>readonly\<close> and assigned nowhere; it is not
  repeated in the datatypes. \<^verbatim>\<open>NoUpdate\<close> is a frozen object and \<^verbatim>\<open>Destroy\<close> has
  no field of its own: their receiver is \<open>()\<close>.
\<close>

definition NoUpdate_applyMutate ::
  "'s \<Rightarrow> (unit, 's, (unit, 's, 'p, 'f) UpdateResult) applied" where
  "NoUpdate_applyMutate prev = \<lparr>receiver = (), argument = prev, outcome = Inr (noChange prev)\<rparr>"

definition Destroy_applyMutate ::
  "'v option \<Rightarrow> (unit, 'v option, (unit, 'v option, 'p, AllDestroyedUpdates) UpdateResult) applied" where
  "Destroy_applyMutate v = \<lparr>receiver = (), argument = v, outcome = Inr (destroyed v)\<rparr>"

subsection \<open>Moving an array element\<close>

datatype MoveArrayValue = MoveArrayValue (fromIndex: nat) (toIndex: nat)

definition MoveArrayValue_applyMutate ::
  "MoveArrayValue \<Rightarrow> 'v array \<Rightarrow> (MoveArrayValue, 'v array, (MoveArrayValue, nat, 'v) arrayResult) applied" where
  "MoveArrayValue_applyMutate u a =
     (let lo = min (fromIndex u) (toIndex u);
          hi = max (fromIndex u) (toIndex u);
          (spliced, a1) = splice_array a (fromIndex u) 1 [];
          elem = (case spliced of [] \<Rightarrow> None | x # _ \<Rightarrow> x);
          a2 = snd (splice_array a1 (toIndex u) 0 [elem])
      in \<lparr>receiver = u, argument = a2,
          outcome = Inr
            \<lparr>update = This u, newValue = a2, oldValue = None, removedValues = None,
             addedValues = None,
             fieldUpdates = Some (arrayFieldUpdates a2 (int lo) (int hi) 1)\<rparr>\<rparr>)"

subsection \<open>Renaming a key\<close>

text \<open>
  \<^verbatim>\<open>RenameKey\<close> reads \<^verbatim>\<open>obj[this.oldKey]\<close> first, which raises a \<^verbatim>\<open>TypeError\<close> on
  \<^verbatim>\<open>null\<close> and \<^verbatim>\<open>undefined\<close>. In the object literal of the field updates the
  entry of the new key is written last.
\<close>

datatype 'k RenameKey = RenameKey (oldKey: 'k) (newKey: 'k)

definition RenameKey_applyMutate ::
  "'k RenameKey \<Rightarrow> ('k, 'v) object nullable
   \<Rightarrow> ('k RenameKey, ('k, 'v) object nullable,
       ('k RenameKey, 'k, 'v, 'v destroyedResult) objectResult) applied" where
  "RenameKey_applyMutate u v =
     (case v of
        Null \<Rightarrow> \<lparr>receiver = u, argument = v, outcome = Inl TypeError\<rparr>
      | Undefined \<Rightarrow> \<lparr>receiver = u, argument = v, outcome = Inl TypeError\<rparr>
      | Object obj \<Rightarrow>
          (let val = (case obj (oldKey u) of None \<Rightarrow> None | Some x \<Rightarrow> x);
               obj' = (obj(newKey u \<mapsto> val))(oldKey u := None)
           in \<lparr>receiver = u, argument = Object obj',
               outcome = Inr
                 \<lparr>update = This u, newValue = Object obj', oldValue = None,
                  removedValues = Some [oldKey u \<mapsto> val],
                  addedValues = Some [newKey u \<mapsto> val],
                  fieldUpdates = Some [oldKey u \<mapsto> destroyed val, newKey u \<mapsto> setTo val None]\<rparr>\<rparr>))"

subsection \<open>Setting a value\<close>

text \<open>
  \<^verbatim>\<open>SetValue\<close> works on any state. A state is \<^verbatim>\<open>undefined\<close>, \<^verbatim>\<open>null\<close>, a primitive
  or a record; \<^verbatim>\<open>typeof\<close> is \<^verbatim>\<open>'object'\<close> for \<^verbatim>\<open>null\<close> and for a record. In
  \<^verbatim>\<open>objectDiffUpdates\<close> a side that is not a record has no properties of its own
  (a string primitive against a record is not modelled). The getters
  \<^verbatim>\<open>removedValues\<close> and \<^verbatim>\<open>addedValues\<close> are evaluated at once; the proxy of field
  updates that \<^verbatim>\<open>compute\<close> builds is never handed out.
\<close>

datatype ('p, 'k, 'v) js_value =
  JSUndefined | JSNull | JSPrimitive 'p | JSObject "('k, 'v) object"

definition typeof_object :: "('p, 'k, 'v) js_value \<Rightarrow> bool" where
  "typeof_object v = (case v of JSNull \<Rightarrow> True | JSObject obj \<Rightarrow> True | _ \<Rightarrow> False)"

definition own_properties :: "('p, 'k, 'v) js_value \<Rightarrow> ('k, 'v) object" where
  "own_properties v = (case v of JSObject obj \<Rightarrow> obj | _ \<Rightarrow> Map.empty)"

definition objectDiffUpdates ::
  "('u, ('p, 'k, 'v) js_value) UpdateLike \<Rightarrow> ('p, 'k, 'v) js_value \<Rightarrow> ('p, 'k, 'v) js_value
   \<Rightarrow> ('u, ('p, 'k, 'v) js_value, 'k \<rightharpoonup> 'v option, 'f) UpdateResult" where
  "objectDiffUpdates upd oldObj newObj =
     \<lparr>update = upd, newValue = newObj, oldValue = None,
      removedValues = Some (\<lambda>k. case own_properties oldObj k of
                                   None \<Rightarrow> None
                                 | Some x \<Rightarrow> (case own_properties newObj k of
                                                None \<Rightarrow> Some x | Some y \<Rightarrow> None)),
      addedValues = Some (\<lambda>k. case own_properties newObj k of
                                 None \<Rightarrow> None
                               | Some x \<Rightarrow> (case own_properties oldObj k of
                                              None \<Rightarrow> Some x | Some y \<Rightarrow> None)),
      fieldUpdates = None\<rparr>"

datatype ('p, 'k, 'v) SetValue = SetValue (SetValue_value: "('p, 'k, 'v) js_value")

definition SetValue_applyMutate ::
  "('p, 'k, 'v) SetValue \<Rightarrow> ('p, 'k, 'v) js_value
   \<Rightarrow> (('p, 'k, 'v) SetValue, ('p, 'k, 'v) js_value,
       (('p, 'k, 'v) SetValue, ('p, 'k, 'v) js_value, 'k \<rightharpoonup> 'v option, 'f) UpdateResult) applied" where
  "SetValue_applyMutate u old =
     (if old = SetValue_value u
      then \<lparr>receiver = u, argument = old, outcome = Inr (noChange old)\<rparr>
      else if typeof_object old \<or> typeof_object (SetValue_value u)
      then \<lparr>receiver = u, argument = old,
            outcome = Inr (objectDiffUpdates (This u) old (SetValue_value u))\<rparr>
      else \<lparr>receiver = u, argument = old,
            outcome = Inr
              \<lparr>update = This u, newValue = SetValue_value u, oldValue = Some old,
               removedValues = None, addedValues = None, fieldUpdates = None\<rparr>\<rparr>)"

subsection \<open>Editing a string\<close>

text \<open>
  \<^verbatim>\<open>ContentEdit.apply\<close> (\<^verbatim>\<open>data/content_edit\<close>) is not part of the sources at hand
  and is the parameter \<open>apply\<close>.
\<close>

datatype 'edit EditString = EditString (EditString_edits: "'edit list")

definition EditString_applyMutate ::
  "('edit \<Rightarrow> string \<Rightarrow> string) \<Rightarrow> 'edit EditString \<Rightarrow> string
   \<Rightarrow> ('edit EditString, string, ('edit EditString, string, unit, unit) UpdateResult) applied" where
  "EditString_applyMutate apply u v =
     (if length (EditString_edits u) = 0
      then \<lparr>receiver = u, argument = v, outcome = Inr (noChange v)\<rparr>
      else \<lparr>receiver = u, argument = v,
            outcome = Inr
              \<lparr>update = This u, newValue = foldl (\<lambda>result e. apply e result) v (EditString_edits u),
               oldValue = Some v, removedValues = None, addedValues = None,
               fieldUpdates = None\<rparr>\<rparr>)"

subsection \<open>Updates that apply other updates\<close>

text \<open>
  \<^verbatim>\<open>UpdateKey\<close> and \<^verbatim>\<open>UpdateWith\<close> call \<^verbatim>\<open>applyMutate\<close> of the updates they hold.
  The call is dynamically dispatched; in the model it is the parameter
  \<open>child_apply\<close>, a model of \<^verbatim>\<open>applyMutate\<close> for the class of the children. A child
  changes the field's value in place, so what it leaves of its argument is
  written back to a field that was there.
\<close>

type_synonym ('c, 'v, 'p, 'f) childResult = "('c, 'v option, 'p, 'f) UpdateResult"

type_synonym ('c, 'v, 'p, 'f) child_apply =
  "'c \<Rightarrow> 'v option \<Rightarrow> ('c, 'v option, ('c, 'v, 'p, 'f) childResult) applied"

definition field_of :: "('k, 'v) object \<Rightarrow> 'k \<Rightarrow> 'v option" where
  "field_of obj k = (case obj k of None \<Rightarrow> None | Some x \<Rightarrow> x)"

definition write_back :: "('k, 'v) object \<Rightarrow> 'k \<Rightarrow> 'v option \<Rightarrow> ('k, 'v) object" where
  "write_back obj k v = (case obj k of None \<Rightarrow> obj | Some x \<Rightarrow> obj(k \<mapsto> v))"

datatype ('k, 'c) UpdateKey = UpdateKey (UpdateKey_key: 'k) (UpdateKey_update: 'c)

definition UpdateKey_applyMutate ::
  "('c, 'v, 'p, 'f) child_apply \<Rightarrow> ('k, 'c) UpdateKey \<Rightarrow> ('k, 'v) object nullable
   \<Rightarrow> (('k, 'c) UpdateKey, ('k, 'v) object nullable,
       (('k, 'c) UpdateKey, 'k, 'v, ('c, 'v, 'p, 'f) childResult) objectResult) applied" where
  "UpdateKey_applyMutate child_apply u v =
     (case v of
        Null \<Rightarrow> \<lparr>receiver = u, argument = v, outcome = Inl TypeError\<rparr>
      | Undefined \<Rightarrow> \<lparr>receiver = u, argument = v, outcome = Inl TypeError\<rparr>
      | Object obj \<Rightarrow>
          (let r = child_apply (UpdateKey_update u) (field_of obj (UpdateKey_key u));
               u' = UpdateKey (UpdateKey_key u) (receiver r);
               obj1 = write_back obj (UpdateKey_key u) (argument r)
           in case outcome r of
                Inl e \<Rightarrow> \<lparr>receiver = u', argument = Object obj1, outcome = Inl e\<rparr>
              | Inr childResult \<Rightarrow>
                  (if update childResult = NoUpdate
                   then \<lparr>receiver = u', argument = Object obj1,
                         outcome = Inr (noChange (Object obj1))\<rparr>
                   else (let obj2 = obj1(UpdateKey_key u \<mapsto> newValue childResult)
                         in \<lparr>receiver = u', argument = Object obj2,
                             outcome = Inr
                               \<lparr>update = This u', newValue = Object obj2, oldValue = None,
                                removedValues = None, addedValues = None,
                                fieldUpdates = Some [UpdateKey_key u \<mapsto> childResult]\<rparr>\<rparr>))))"

text \<open>
  \<^verbatim>\<open>UpdateWith\<close> is private to the module and built only by \<^verbatim>\<open>valueToUpdate\<close>,
  from an object whose properties are updates: its \<^verbatim>\<open>fieldUpdates\<close> are the
  list of those properties in the order of \<^verbatim>\<open>for ... in\<close>. The loop's variables
  are the fields of \<open>loopState\<close>; \<open>loop_finished\<close> holds the children already applied,
  and \<open>loop_raised\<close> what a child has raised, which ends the loop.
\<close>

datatype ('k, 'c, 'v) UpdateWith =
  UpdateWith (UpdateWith_fieldUpdates: "('k \<times> 'c) list")
             (UpdateWith_removedValues: "('k, 'v) object")

record ('k, 'c, 'v, 'p, 'f) loopState =
  loop_finished :: "('k \<times> 'c) list"
  loop_value :: "('k, 'v) object"
  loop_fieldUpdateResults :: "('k \<rightharpoonup> ('c, 'v, 'p, 'f) childResult) option"
  loop_addedValues :: "('k, 'v) object option"
  loop_removedValues :: "('k, 'v) object option"
  loop_anyChanged :: bool
  loop_raised :: "js_error option"

definition or_empty :: "('a \<rightharpoonup> 'b) option \<Rightarrow> ('a \<rightharpoonup> 'b)" where
  "or_empty m = (case m of None \<Rightarrow> Map.empty | Some x \<Rightarrow> x)"

definition UpdateWith_step ::
  "('c, 'v, 'p, 'f) child_apply \<Rightarrow> ('k, 'c, 'v, 'p, 'f) loopState \<Rightarrow> 'k \<times> 'c
   \<Rightarrow> ('k, 'c, 'v, 'p, 'f) loopState" where
  "UpdateWith_step child_apply st entry =
     (case loop_raised st of
        Some e \<Rightarrow> st\<lparr>loop_finished := loop_finished st @ [entry]\<rparr>
      | None \<Rightarrow>
          (let key = fst entry;
               r = child_apply (snd entry) (field_of (loop_value st) key);
               st1 = st\<lparr>loop_finished := loop_finished st @ [(key, receiver r)],
                        loop_value := write_back (loop_value st) key (argument r)\<rparr>
           in case outcome r of
                Inl e \<Rightarrow> st1\<lparr>loop_raised := Some e\<rparr>
              | Inr updateResult \<Rightarrow>
                  st1\<lparr>loop_fieldUpdateResults :=
                        Some ((or_empty (loop_fieldUpdateResults st))(key \<mapsto> updateResult)),
                      loop_anyChanged := (loop_anyChanged st \<or> update updateResult \<noteq> NoUpdate),
                      loop_removedValues :=
                        (if update updateResult = Destroy_Instance
                         then Some ((or_empty (loop_removedValues st))
                                      (key \<mapsto> (case oldValue updateResult of
                                                  None \<Rightarrow> None | Some x \<Rightarrow> x)))
                         else loop_removedValues st),
                      loop_addedValues :=
                        (if loop_value st1 key = None
                         then Some ((or_empty (loop_addedValues st))
                                      (key \<mapsto> newValue updateResult))
                         else loop_addedValues st),
                      loop_value := (loop_value st1)(key \<mapsto> newValue updateResult)\<rparr>))"

definition UpdateWith_applyMutate ::
  "('c, 'v, 'p, 'f) child_apply \<Rightarrow> ('k, 'c, 'v) UpdateWith \<Rightarrow> ('k, 'v) object nullable
   \<Rightarrow> (('k, 'c, 'v) UpdateWith, ('k, 'v) object nullable,
       (('k, 'c, 'v) UpdateWith, 'k, 'v, ('c, 'v, 'p, 'f) childResult) objectResult) applied" where
  "UpdateWith_applyMutate child_apply u oldValue' =
     (let start = \<lparr>loop_finished = [],
                   loop_value = (case oldValue' of Object obj \<Rightarrow> obj | _ \<Rightarrow> Map.empty),
                   loop_fieldUpdateResults = None, loop_addedValues = None,
                   loop_removedValues = None, loop_anyChanged = False, loop_raised = None\<rparr>;
          st = foldl (UpdateWith_step child_apply) start (UpdateWith_fieldUpdates u);
          u' = UpdateWith (loop_finished st) (UpdateWith_removedValues u);
          after = (case oldValue' of Object obj \<Rightarrow> Object (loop_value st) | _ \<Rightarrow> oldValue')
      in case loop_raised st of
           Some e \<Rightarrow> \<lparr>receiver = u', argument = after, outcome = Inl e\<rparr>
         | None \<Rightarrow>
             (if loop_anyChanged st
              then \<lparr>receiver = u', argument = after,
                    outcome = Inr
                      \<lparr>update = This u', newValue = Object (loop_value st), oldValue = None,
                       removedValues = loop_removedValues st, addedValues = loop_addedValues st,
                       fieldUpdates = loop_fieldUpdateResults st\<rparr>\<rparr>
              else \<lparr>receiver = u', argument = after,
                    outcome = Inr (noChange (Object (loop_value st)))\<rparr>))"

section \<open>Properties of the update handler\<close>

subsection \<open>What each method leaves behind\<close>

lemma addUpdate_current:
  "update_localVersion m = localVersion h \<Longrightarrow>
   addUpdate h m = (Inr (), h\<lparr>edits := edits h @ [(localVersion h, m)], published := published h @ [m]\<rparr>)"
  by (simp add: addUpdate_def EditBuffer_push_def StateHandler_update_def)

lemma addUpdate_localVersion: "localVersion (snd (addUpdate h m)) = localVersion h"
  by (simp add: addUpdate_def)

lemma insertCell_effect:
  "updateHandler_insertCell h cellId lang txt meta prevId =
     (Inr (), h\<lparr>localVersion := localVersion h + 1,
        edits := edits h @ [(localVersion h + 1,
           InsertCell (globalVersion h) (localVersion h + 1)
             (NotebookCell cellId lang txt [] meta) prevId)],
        published := published h @ [InsertCell (globalVersion h) (localVersion h + 1)
             (NotebookCell cellId lang txt [] meta) prevId]\<rparr>)"
  by (simp add: updateHandler_insertCell_def Let_def addUpdate_current)

lemma deleteCell_effect:
  "updateHandler_deleteCell h i =
     (Inr (), h\<lparr>localVersion := localVersion h + 1,
        edits := edits h @ [(localVersion h + 1, DeleteCell (globalVersion h) (localVersion h + 1) i)],
        published := published h @ [DeleteCell (globalVersion h) (localVersion h + 1) i]\<rparr>)"
  by (simp add: updateHandler_deleteCell_def Let_def addUpdate_current)

lemma updateCell_effect:
  "updateCell h i es m =
     (Inr (), h\<lparr>localVersion := localVersion h + 1,
        edits := edits h @ [(localVersion h + 1,
           UpdateCell (globalVersion h) (localVersion h + 1) i (case es of None \<Rightarrow> [] | Some x \<Rightarrow> x) m)],
        published := published h @
           [UpdateCell (globalVersion h) (localVersion h + 1) i (case es of None \<Rightarrow> [] | Some x \<Rightarrow> x) m]\<rparr>)"
  by (simp add: updateCell_def Let_def addUpdate_current)

lemma updateConfig_effect:
  "updateConfig h cfg =
     (Inr (), h\<lparr>localVersion := localVersion h + 1,
        edits := edits h @ [(localVersion h + 1, UpdateConfig (globalVersion h) (localVersion h + 1) cfg)],
        published := published h @ [UpdateConfig (globalVersion h) (localVersion h + 1) cfg]\<rparr>)"
  by (simp add: updateConfig_def Let_def addUpdate_current)

lemma createComment_effect:
  "createComment h cellId comment =
     (Inr (), h\<lparr>edits := edits h @ [(localVersion h, CreateComment (globalVersion h) (localVersion h) cellId comment)],
        published := published h @ [CreateComment (globalVersion h) (localVersion h) cellId comment]\<rparr>)"
  by (simp add: createComment_def addUpdate_current)

lemma deleteComment_effect:
  "deleteComment h cellId commentId =
     (Inr (), h\<lparr>edits := edits h @ [(localVersion h, DeleteComment (globalVersion h) (localVersion h) cellId commentId)],
        published := published h @ [DeleteComment (globalVersion h) (localVersion h) cellId commentId]\<rparr>)"
  by (simp add: deleteComment_def addUpdate_current)

lemma updateComment_effect:
  "updateComment h cellId commentId r txt =
     (Inr (), h\<lparr>edits := edits h @ [(localVersion h, UpdateComment (globalVersion h) (localVersion h) cellId commentId r txt)],
        published := published h @ [UpdateComment (globalVersion h) (localVersion h) cellId commentId r txt]\<rparr>)"
  by (simp add: updateComment_def addUpdate_current)

lemma setCellOutput_effect:
  "setCellOutput h cellId out =
     (Inr (), h\<lparr>edits := edits h @ [(localVersion h, SetCellOutput (globalVersion h) (localVersion h) cellId out)],
        published := published h @ [SetCellOutput (globalVersion h) (localVersion h) cellId out]\<rparr>)"
  by (simp add: setCellOutput_def addUpdate_current)

lemma watchCell_language_effect:
  "watchCell_language h i lang =
     (Inr (), h\<lparr>edits := edits h @ [(localVersion h, SetCellLanguage (globalVersion h) (localVersion h) i lang)],
        published := published h @ [SetCellLanguage (globalVersion h) (localVersion h) i lang]\<rparr>)"
  by (simp add: watchCell_language_def addUpdate_current)

lemma watchCell_output_localVersion:
  "localVersion (snd (watchCell_output h i added)) = localVersion h"
  by (induction added arbitrary: h) (simp_all add: addUpdate_current)

lemma watchCell_outgoingEdits_localVersion:
  "localVersion h \<le> localVersion (snd (watchCell_outgoingEdits h i es))"
  by (simp add: watchCell_outgoingEdits_def updateCell_effect)

lemma watchCell_metadata_localVersion:
  "localVersion (snd (watchCell_metadata h i m)) = localVersion h + 1"
  by (simp add: watchCell_metadata_def updateCell_effect)

lemma rebaseUpdate_localVersion: "localVersion (snd (rebaseUpdate rebase h u)) = localVersion h"
  by (simp add: rebaseUpdate_def Let_def)

lemma rebaseUpdate_globalVersion:
  "globalVersion (snd (rebaseUpdate rebase h u)) = update_globalVersion u"
  by (simp add: rebaseUpdate_def Let_def)

lemma perform_localVersion: "localVersion h \<le> localVersion (perform rebase h c)"
  by (cases c)
     (simp_all add: insertCell_effect deleteCell_effect updateCell_effect updateConfig_effect
        createComment_effect deleteComment_effect updateComment_effect setCellOutput_effect
        watchCell_language_effect addUpdate_localVersion rebaseUpdate_localVersion
        watchCell_output_localVersion watchCell_outgoingEdits_localVersion
        watchCell_metadata_localVersion)

lemma performAll_localVersion: "localVersion h \<le> localVersion (performAll rebase h calls)"
  unfolding performAll_def
proof (induction calls arbitrary: h)
  case Nil
  show ?case by simp
next
  case (Cons c cs)
  have "localVersion h \<le> localVersion (perform rebase h c)"
    by (rule perform_localVersion)
  also have "\<dots> \<le> localVersion (foldl (perform rebase) (perform rebase h c) cs)"
    by (rule Cons.IH)
  finally show ?case by simp
qed

subsection \<open>The buffer stays in order\<close>

lemma dropWhile_sorted_filter:
  "sorted (map fst xs) \<Longrightarrow>
   dropWhile (\<lambda>entry. fst entry \<le> (v::int)) xs = filter (\<lambda>entry. v < fst entry) xs"
proof (induction xs)
  case Nil
  show ?case by simp
next
  case (Cons x xs)
  show ?case
  proof (cases "fst x \<le> v")
    case True
    with Cons show ?thesis by simp
  next
    case False
    with Cons.prems have "\<forall>y\<in>set xs. v < fst y" by auto
    then have "filter (\<lambda>entry. v < fst entry) xs = xs" by (simp add: filter_id_conv)
    with False show ?thesis by simp
  qed
qed

lemma range_bounded_filter:
  "list_all (\<lambda>entry. fst entry \<le> hi) xs \<Longrightarrow>
   EditBuffer_range xs lo hi = map snd (filter (\<lambda>entry. lo < fst entry) xs)"
  unfolding EditBuffer_range_def
  by (rule arg_cong [where f = "map snd"], rule filter_cong) (auto simp: list_all_iff)

lemma edits_ordered_initial: "edits_ordered initialHandler"
  by (simp add: edits_ordered_def initialHandler_def)

lemma edits_ordered_append:
  "edits_ordered h \<Longrightarrow> localVersion h \<le> v \<Longrightarrow>
   edits_ordered (h\<lparr>localVersion := v, edits := edits h @ [(v, m)], published := p\<rparr>)"
  by (auto simp: edits_ordered_def sorted_append list_all_iff)

lemma edits_ordered_append_same:
  "edits_ordered h \<Longrightarrow>
   edits_ordered (h\<lparr>edits := edits h @ [(localVersion h, m)], published := p\<rparr>)"
  by (auto simp: edits_ordered_def sorted_append list_all_iff)

lemma edits_ordered_addUpdate: "edits_ordered h \<Longrightarrow> edits_ordered (snd (addUpdate h m))"
  by (auto simp: addUpdate_def EditBuffer_push_def StateHandler_update_def edits_ordered_def
        sorted_append list_all_iff)

lemma edits_ordered_rebaseUpdate:
  "edits_ordered h \<Longrightarrow> edits_ordered (snd (rebaseUpdate rebase h u))"
  by (auto simp: rebaseUpdate_def Let_def EditBuffer_discard_def edits_ordered_def
        list_all_iff dropWhile_sorted_filter sorted_filter)

lemma edits_ordered_watchCell_output:
  "edits_ordered h \<Longrightarrow> edits_ordered (snd (watchCell_output h i added))"
  by (induction added arbitrary: h) (simp_all add: addUpdate_current edits_ordered_append_same)

lemma edits_ordered_watchCell_outgoingEdits:
  "edits_ordered h \<Longrightarrow> edits_ordered (snd (watchCell_outgoingEdits h i es))"
  by (simp add: watchCell_outgoingEdits_def updateCell_effect edits_ordered_append)

lemma edits_ordered_watchCell_metadata:
  "edits_ordered h \<Longrightarrow> edits_ordered (snd (watchCell_metadata h i m))"
  by (simp add: watchCell_metadata_def updateCell_effect edits_ordered_append)

lemma edits_ordered_perform: "edits_ordered h \<Longrightarrow> edits_ordered (perform rebase h c)"
  by (cases c)
     (simp_all add: insertCell_effect deleteCell_effect updateCell_effect updateConfig_effect
        createComment_effect deleteComment_effect updateComment_effect setCellOutput_effect
        watchCell_language_effect edits_ordered_append edits_ordered_append_same
        edits_ordered_addUpdate edits_ordered_rebaseUpdate edits_ordered_watchCell_output
        edits_ordered_watchCell_outgoingEdits edits_ordered_watchCell_metadata)

lemma edits_ordered_performAll:
  "edits_ordered h \<Longrightarrow> edits_ordered (performAll rebase h calls)"
  unfolding performAll_def
  by (induction calls arbitrary: h) (simp_all add: edits_ordered_perform)

subsection \<open>Claims about the update handler\<close>

text \<open>
  C1, as the code has it. A cell insert, a cell delete, a cell update (content
  edits or metadata) and a configuration change each publish one message and
  raise \<open>localVersion\<close> by exactly one. A comment creation, update or deletion,
  a cell output and a language change each publish one message and leave
  \<open>localVersion\<close> as it is: the message is tagged with the current counter.
  Over any sequence of handler calls, \<open>addUpdate\<close> and \<open>rebaseUpdate\<close> included,
  \<open>localVersion\<close> never goes down.
\<close>

theorem localVersion_by_message_kind:
  "publishedOne h (updateHandler_insertCell h cellId lang txt meta prevId)
   \<and> localVersion (snd (updateHandler_insertCell h cellId lang txt meta prevId)) = localVersion h + 1
   \<and> publishedOne h (updateHandler_deleteCell h cellId)
   \<and> localVersion (snd (updateHandler_deleteCell h cellId)) = localVersion h + 1
   \<and> publishedOne h (updateCell h cellId changed_edits changed_metadata)
   \<and> localVersion (snd (updateCell h cellId changed_edits changed_metadata)) = localVersion h + 1
   \<and> publishedOne h (updateConfig h cfg)
   \<and> localVersion (snd (updateConfig h cfg)) = localVersion h + 1
   \<and> publishedOne h (createComment h cellId comment)
   \<and> localVersion (snd (createComment h cellId comment)) = localVersion h
   \<and> publishedOne h (deleteComment h cellId commentId)
   \<and> localVersion (snd (deleteComment h cellId commentId)) = localVersion h
   \<and> publishedOne h (updateComment h cellId commentId r txt)
   \<and> localVersion (snd (updateComment h cellId commentId r txt)) = localVersion h
   \<and> publishedOne h (setCellOutput h cellId out)
   \<and> localVersion (snd (setCellOutput h cellId out)) = localVersion h
   \<and> publishedOne h (watchCell_language h cellId lang)
   \<and> localVersion (snd (watchCell_language h cellId lang)) = localVersion h
   \<and> localVersion (snd (watchCell_output h cellId added)) = localVersion h
   \<and> localVersion h \<le> localVersion (performAll rebase h calls)"
  by (simp add: publishedOne_def insertCell_effect deleteCell_effect updateCell_effect
        updateConfig_effect createComment_effect deleteComment_effect updateComment_effect
        setCellOutput_effect watchCell_language_effect watchCell_output_localVersion
        performAll_localVersion)

text \<open>
  C1 as stated fails: on the freshly constructed handler, \<open>createComment\<close>
  publishes its message and \<open>localVersion\<close> is still \<open>-1\<close>, not \<open>0\<close>.
\<close>

theorem createComment_keeps_localVersion:
  "createComment (initialHandler :: (unit, string, unit, unit, unit, unit, unit) handler) 1 ''note''
     = (Inr (), \<lparr>globalVersion = -1, localVersion = -1,
          edits = [(-1, CreateComment (-1) (-1) 1 ''note'')],
          published = [CreateComment (-1) (-1) 1 ''note'']\<rparr>)
   \<and> localVersion (snd (createComment
        (initialHandler :: (unit, string, unit, unit, unit, unit, unit) handler) 1 ''note''))
     \<noteq> localVersion (initialHandler :: (unit, string, unit, unit, unit, unit, unit) handler) + 1"
  by (simp add: createComment_def addUpdate_def EditBuffer_push_def StateHandler_update_def
        initialHandler_def)

text \<open>
  C3. \<open>rebaseUpdate\<close> takes over the incoming update's \<open>globalVersion\<close> and
  leaves \<open>localVersion\<close> alone. When the incoming \<open>localVersion\<close> is strictly below
  the handler's, the result is the incoming update rebased on exactly the
  buffered edits whose version is strictly greater, in the order of the log
  (the order in which they were issued), and the buffer keeps exactly those
  entries: everything at or below the incoming version is gone. Otherwise the
  update comes back as it is and the buffer is untouched. The buffer is taken
  in order, as it is in every handler reachable from the initial one.
\<close>

theorem rebaseUpdate_extracts_and_discards:
  assumes "edits_ordered h"
  shows "globalVersion (snd (rebaseUpdate rebase h u)) = update_globalVersion u
       \<and> localVersion (snd (rebaseUpdate rebase h u)) = localVersion h
       \<and> published (snd (rebaseUpdate rebase h u)) = published h
       \<and> (update_localVersion u < localVersion h \<longrightarrow>
            fst (rebaseUpdate rebase h u)
              = rebase u (map snd (filter (\<lambda>entry. update_localVersion u < fst entry) (edits h)))
          \<and> edits (snd (rebaseUpdate rebase h u))
              = filter (\<lambda>entry. update_localVersion u < fst entry) (edits h))
       \<and> (\<not> update_localVersion u < localVersion h \<longrightarrow>
            fst (rebaseUpdate rebase h u) = u \<and> edits (snd (rebaseUpdate rebase h u)) = edits h)"
proof -
  from assms have s: "sorted (map fst (edits h))"
    and b: "list_all (\<lambda>entry. fst entry \<le> localVersion h) (edits h)"
    by (simp_all add: edits_ordered_def)
  show ?thesis
    by (simp add: rebaseUpdate_def Let_def EditBuffer_discard_def
          dropWhile_sorted_filter [OF s] range_bounded_filter [OF b])
qed

theorem rebaseUpdate_extracts_and_discards_witness:
  "edits_ordered
     (\<lparr>globalVersion = -1, localVersion = 1,
       edits = [(0, DeleteCell (-1) 0 7), (0, SetCellLanguage (-1) 0 7 ''scala''),
                (1, DeleteCell (-1) 1 8)],
       published = []\<rparr> :: (unit, unit, unit, unit, unit, unit, unit) handler)
   \<and> rebaseUpdate (\<lambda>upd prevUpdates. DeleteCell (update_globalVersion upd)
                      (update_localVersion upd) (int (length prevUpdates)))
       (\<lparr>globalVersion = -1, localVersion = 1,
         edits = [(0, DeleteCell (-1) 0 7), (0, SetCellLanguage (-1) 0 7 ''scala''),
                  (1, DeleteCell (-1) 1 8)],
         published = []\<rparr> :: (unit, unit, unit, unit, unit, unit, unit) handler)
       (DeleteCell 5 0 9)
     = (DeleteCell 5 0 1,
        \<lparr>globalVersion = 5, localVersion = 1, edits = [(1, DeleteCell (-1) 1 8)],
         published = []\<rparr>)"
proof -
  let ?h = "\<lparr>globalVersion = -1, localVersion = 1,
       edits = [(0, DeleteCell (-1) 0 7), (0, SetCellLanguage (-1) 0 7 ''scala''),
                (1, DeleteCell (-1) 1 8)],
       published = []\<rparr> :: (unit, unit, unit, unit, unit, unit, unit) handler"
  let ?r = "\<lambda>upd prevUpdates. DeleteCell (update_globalVersion upd)
                      (update_localVersion upd) (int (length prevUpdates))
             :: (unit, unit, unit, unit, unit, unit, unit) NotebookUpdate"
  have ordered: "edits_ordered ?h"
    by (simp add: edits_ordered_def)
  from rebaseUpdate_extracts_and_discards [OF ordered, of ?r "DeleteCell 5 0 9"]
  have "rebaseUpdate ?r ?h (DeleteCell 5 0 9)
          = (DeleteCell 5 0 1,
             \<lparr>globalVersion = 5, localVersion = 1, edits = [(1, DeleteCell (-1) 1 8)],
              published = []\<rparr>)"
    by (cases "rebaseUpdate ?r ?h (DeleteCell 5 0 9)") auto
  with ordered show ?thesis by simp
qed

text \<open>
  C4. \<open>addUpdate\<close> raises when the message's \<open>localVersion\<close> differs from the
  handler's counter and then leaves the whole handler, the buffer and the
  published updates included, exactly as it was. When the two agree the message
  is appended to the buffer under its version and to the published updates.
\<close>

theorem addUpdate_version_check:
  "(update_localVersion m \<noteq> localVersion h \<longrightarrow>
      addUpdate h m = (Inl (VersionMismatch (update_localVersion m) (localVersion h)), h))
   \<and> (update_localVersion m = localVersion h \<longrightarrow>
      fst (addUpdate h m) = Inr ()
      \<and> edits (snd (addUpdate h m)) = edits h @ [(update_localVersion m, m)]
      \<and> published (snd (addUpdate h m)) = published h @ [m]
      \<and> localVersion (snd (addUpdate h m)) = localVersion h
      \<and> globalVersion (snd (addUpdate h m)) = globalVersion h)"
  by (simp add: addUpdate_def EditBuffer_push_def StateHandler_update_def)

theorem addUpdate_version_check_witness:
  "addUpdate initialHandler (DeleteCell 0 5 1 :: (unit, unit, unit, unit, unit, unit, unit) NotebookUpdate)
     = (Inl (VersionMismatch 5 (-1)), initialHandler)
   \<and> published (snd (addUpdate initialHandler
        (DeleteCell (-1) (-1) 1 :: (unit, unit, unit, unit, unit, unit, unit) NotebookUpdate)))
     = [DeleteCell (-1) (-1) 1]
   \<and> edits (snd (addUpdate initialHandler
        (DeleteCell (-1) (-1) 1 :: (unit, unit, unit, unit, unit, unit, unit) NotebookUpdate)))
     = [(-1, DeleteCell (-1) (-1) 1)]"
  using addUpdate_version_check
          [of "DeleteCell 0 5 1 :: (unit, unit, unit, unit, unit, unit, unit) NotebookUpdate" initialHandler]
        addUpdate_version_check
          [of "DeleteCell (-1) (-1) 1 :: (unit, unit, unit, unit, unit, unit, unit) NotebookUpdate" initialHandler]
  by (simp add: initialHandler_def)

section \<open>Properties of the update algebra\<close>

subsection \<open>Splicing\<close>

lemma splice_remove_one: "snd (splice_array a idx (Suc 0) []) = take idx a @ drop (Suc idx) a"
  by (simp add: splice_array_def Let_def min_def)

lemma splice_insert_one: "idx \<le> length a \<Longrightarrow> snd (splice_array a idx 0 [x]) = take idx a @ x # drop idx a"
  by (simp add: splice_array_def Let_def min_def)

text \<open>
  Removing one element at an index that is not negative, and what is then
  read at an index of the array that is left.
\<close>

lemma splice_start_nonneg:
  "0 \<le> idx \<Longrightarrow>
   snd (splice_array a (splice_start (length a) idx) (Suc 0) [])
     = take (nat idx) a @ drop (Suc (nat idx)) a"
  by (simp add: splice_remove_one splice_start_def min_def)

lemma js_index_remove:
  "js_index (take n a @ drop (Suc n) a) i = (if i < int n then js_index a i else js_index a (i + 1))"
proof (cases "0 \<le> i")
  case False
  then show ?thesis by (simp add: js_index_def)
next
  case True
  then obtain k where k: "i = int k" using nonneg_int_cases by blast
  have s: "nat (int k + 1) = Suc k" by simp
  show ?thesis
    unfolding k js_index_def
    by (auto simp: nth_append min_def s)
qed

lemma js_index_beyond: "int (length a) \<le> i \<Longrightarrow> js_index a i = None"
  by (simp add: js_index_def)

lemma arrayFieldUpdates_get_removed:
  assumes "0 \<le> idx"
  shows "arrayFieldUpdates_get
           \<lparr>arr = take (nat idx) a @ drop (Suc (nat idx)) a, minIdx = idx,
            maxIdx = int (length a), indexShift = -1\<rparr> i
         = (if idx \<le> i \<and> i \<le> int (length a)
            then \<lparr>update = setValue (js_index a (i + 1)), newValue = js_index a (i + 1),
                  oldValue = Some (js_index a (i + 2)), removedValues = None,
                  addedValues = None, fieldUpdates = None\<rparr>
            else \<lparr>update = NoUpdate, newValue = (if i < idx then js_index a i else None),
                  oldValue = None, removedValues = None, addedValues = None,
                  fieldUpdates = None\<rparr>)"
proof -
  have two: "i - (-1) + 1 = i + 2" by simp
  show ?thesis
    using assms
    by (simp add: arrayFieldUpdates_get_def Let_def js_index_remove noChange_def
          js_index_beyond two del: add_uminus_conv_diff diff_minus_eq_add)
qed

subsection \<open>Claims about array updates\<close>

text \<open>
  C2, as the code has it. \<open>RemoveValue(v, idx).applyMutate(arr)\<close> raises exactly
  when \<open>arr[idx]\<close> is not \<open>v\<close>, for every integer \<open>idx\<close>, and then neither the
  array nor the update has changed. When \<open>arr[idx]\<close> is \<open>v\<close> and \<open>idx\<close> is not
  negative, the array is left without its element at \<open>idx\<close>, the result's
  \<open>newValue\<close> is that array, \<open>removedValues\<close> is \<open>{idx: v}\<close>, and the field
  updates answer \<open>has\<close> for exactly the indices from \<open>idx\<close> to the old length.
  Read at such an index \<open>i\<close>, the field updates give a \<open>setValue\<close> result whose
  new value is the element now at \<open>i\<close>, which is the old \<open>arr[i + 1]\<close>. Read at
  any other index they give the result \<open>{update: NoUpdate, newValue: arr[i]}\<close>.
  The \<open>oldValue\<close> that the result of an index in the range carries is left out
  of the claim; lemma \<open>arrayFieldUpdates_get_removed\<close> has that result in full.
\<close>

theorem RemoveValue_applyMutate_guard:
  "((\<exists>e. outcome (RemoveValue_applyMutate (RemoveValue v idx) a) = Inl e)
      \<longleftrightarrow> js_index a idx \<noteq> v)
   \<and> (js_index a idx \<noteq> v \<longrightarrow>
        RemoveValue_applyMutate (RemoveValue v idx) a
          = \<lparr>receiver = RemoveValue v idx, argument = a, outcome = Inl RemoveValueNoLongerValid\<rparr>)
   \<and> (js_index a idx = v \<and> 0 \<le> idx \<longrightarrow>
        (let a' = take (nat idx) a @ drop (Suc (nat idx)) a;
             reported = \<lparr>arr = a', minIdx = idx, maxIdx = int (length a), indexShift = -1\<rparr>
         in RemoveValue_applyMutate (RemoveValue v idx) a
              = \<lparr>receiver = RemoveValue v idx,
                 argument = a',
                 outcome = Inr
                   \<lparr>update = This (RemoveValue v idx),
                    newValue = a',
                    oldValue = None,
                    removedValues = Some [idx \<mapsto> v],
                    addedValues = None,
                    fieldUpdates = Some reported\<rparr>\<rparr>
            \<and> (\<forall>i. arrayFieldUpdates_has reported i \<longleftrightarrow> idx \<le> i \<and> i \<le> int (length a))
            \<and> (\<forall>i. idx \<le> i \<and> i \<le> int (length a) \<longrightarrow>
                   update (arrayFieldUpdates_get reported i) = setValue (js_index a (i + 1))
                   \<and> newValue (arrayFieldUpdates_get reported i) = js_index a (i + 1))
            \<and> (\<forall>i. \<not> (idx \<le> i \<and> i \<le> int (length a)) \<longrightarrow>
                   arrayFieldUpdates_get reported i
                     = \<lparr>update = NoUpdate,
                        newValue = (if i < idx then js_index a i else None),
                        oldValue = None,
                        removedValues = None, addedValues = None, fieldUpdates = None\<rparr>)))"
proof -
  have guard: "(\<exists>e. outcome (RemoveValue_applyMutate (RemoveValue v idx) a) = Inl e)
      \<longleftrightarrow> js_index a idx \<noteq> v"
    by (simp add: RemoveValue_applyMutate_def Let_def)
  have stale: "js_index a idx \<noteq> v \<longrightarrow>
        RemoveValue_applyMutate (RemoveValue v idx) a
          = \<lparr>receiver = RemoveValue v idx, argument = a, outcome = Inl RemoveValueNoLongerValid\<rparr>"
    by (simp add: RemoveValue_applyMutate_def Let_def)
  have found: "js_index a idx = v \<and> 0 \<le> idx \<longrightarrow>
        RemoveValue_applyMutate (RemoveValue v idx) a
              = \<lparr>receiver = RemoveValue v idx,
                 argument = take (nat idx) a @ drop (Suc (nat idx)) a,
                 outcome = Inr
                   \<lparr>update = This (RemoveValue v idx),
                    newValue = take (nat idx) a @ drop (Suc (nat idx)) a,
                    oldValue = None,
                    removedValues = Some [idx \<mapsto> v],
                    addedValues = None,
                    fieldUpdates = Some \<lparr>arr = take (nat idx) a @ drop (Suc (nat idx)) a,
                                         minIdx = idx, maxIdx = int (length a), indexShift = -1\<rparr>\<rparr>\<rparr>"
    by (simp add: RemoveValue_applyMutate_def Let_def splice_start_nonneg arrayFieldUpdates_def)
  have has: "\<forall>i. arrayFieldUpdates_has
                  \<lparr>arr = take (nat idx) a @ drop (Suc (nat idx)) a,
                   minIdx = idx, maxIdx = int (length a), indexShift = -1\<rparr> i
                \<longleftrightarrow> idx \<le> i \<and> i \<le> int (length a)"
    by (simp add: arrayFieldUpdates_has_def)
  from guard stale found has show ?thesis
    by (simp add: Let_def arrayFieldUpdates_get_removed)
qed

theorem RemoveValue_applyMutate_guard_witness:
  "RemoveValue_applyMutate (RemoveValue (Some ''b'') 0) [Some ''a'', Some ''b'', Some ''c'']
     = \<lparr>receiver = RemoveValue (Some ''b'') 0, argument = [Some ''a'', Some ''b'', Some ''c''],
        outcome = Inl RemoveValueNoLongerValid\<rparr>
   \<and> RemoveValue_applyMutate (RemoveValue (Some ''b'') 1) [Some ''a'', Some ''b'', Some ''c'']
     = \<lparr>receiver = RemoveValue (Some ''b'') 1, argument = [Some ''a'', Some ''c''],
        outcome = Inr
          \<lparr>update = This (RemoveValue (Some ''b'') 1), newValue = [Some ''a'', Some ''c''],
           oldValue = None, removedValues = Some [1 \<mapsto> Some ''b''], addedValues = None,
           fieldUpdates = Some \<lparr>arr = [Some ''a'', Some ''c''], minIdx = 1, maxIdx = 3,
                                indexShift = -1\<rparr>\<rparr>\<rparr>
   \<and> arrayFieldUpdates_has
        \<lparr>arr = [Some ''a'', Some ''c''], minIdx = 1, maxIdx = 3, indexShift = -1\<rparr> 3
   \<and> \<not> arrayFieldUpdates_has
        \<lparr>arr = [Some ''a'', Some ''c''], minIdx = 1, maxIdx = 3, indexShift = -1\<rparr> 0
   \<and> update (arrayFieldUpdates_get
        \<lparr>arr = [Some ''a'', Some ''c''], minIdx = 1, maxIdx = 3, indexShift = -1\<rparr> 1)
       = setValue (Some ''c'')
   \<and> newValue (arrayFieldUpdates_get
        \<lparr>arr = [Some ''a'', Some ''c''], minIdx = 1, maxIdx = 3, indexShift = -1\<rparr> 1)
       = Some ''c''
   \<and> arrayFieldUpdates_get
        \<lparr>arr = [Some ''a'', Some ''c''], minIdx = 1, maxIdx = 3, indexShift = -1\<rparr> 0
       = \<lparr>update = NoUpdate, newValue = Some ''a'', oldValue = None,
          removedValues = None, addedValues = None, fieldUpdates = None\<rparr>"
proof -
  have stale: "js_index [Some ''a'', Some ''b'', Some ''c''] 0 \<noteq> Some ''b''"
    by (simp add: js_index_def)
  have found: "js_index [Some ''a'', Some ''b'', Some ''c''] 1 = Some ''b'' \<and> (0::int) \<le> 1"
    by (simp add: js_index_def)
  from RemoveValue_applyMutate_guard [of "Some ''b''" 0 "[Some ''a'', Some ''b'', Some ''c'']"] stale
  have first: "RemoveValue_applyMutate (RemoveValue (Some ''b'') 0) [Some ''a'', Some ''b'', Some ''c'']
     = \<lparr>receiver = RemoveValue (Some ''b'') 0, argument = [Some ''a'', Some ''b'', Some ''c''],
        outcome = Inl RemoveValueNoLongerValid\<rparr>"
    by blast
  from RemoveValue_applyMutate_guard [of "Some ''b''" 1 "[Some ''a'', Some ''b'', Some ''c'']",
         THEN conjunct2, THEN conjunct2] found
  have second:
    "let a' = take (nat 1) [Some ''a'', Some ''b'', Some ''c'']
                 @ drop (Suc (nat 1)) [Some ''a'', Some ''b'', Some ''c''];
         reported = \<lparr>arr = a', minIdx = 1,
                      maxIdx = int (length [Some ''a'', Some ''b'', Some ''c'']), indexShift = -1\<rparr>
     in RemoveValue_applyMutate (RemoveValue (Some ''b'') 1) [Some ''a'', Some ''b'', Some ''c'']
              = \<lparr>receiver = RemoveValue (Some ''b'') 1,
                 argument = a',
                 outcome = Inr
                   \<lparr>update = This (RemoveValue (Some ''b'') 1),
                    newValue = a',
                    oldValue = None,
                    removedValues = Some [1 \<mapsto> Some ''b''],
                    addedValues = None,
                    fieldUpdates = Some reported\<rparr>\<rparr>
            \<and> (\<forall>i. arrayFieldUpdates_has reported i
                     \<longleftrightarrow> 1 \<le> i \<and> i \<le> int (length [Some ''a'', Some ''b'', Some ''c'']))
            \<and> (\<forall>i. 1 \<le> i \<and> i \<le> int (length [Some ''a'', Some ''b'', Some ''c'']) \<longrightarrow>
                   update (arrayFieldUpdates_get reported i)
                     = setValue (js_index [Some ''a'', Some ''b'', Some ''c''] (i + 1))
                   \<and> newValue (arrayFieldUpdates_get reported i)
                     = js_index [Some ''a'', Some ''b'', Some ''c''] (i + 1))
            \<and> (\<forall>i. \<not> (1 \<le> i \<and> i \<le> int (length [Some ''a'', Some ''b'', Some ''c''])) \<longrightarrow>
                   arrayFieldUpdates_get reported i
                     = \<lparr>update = NoUpdate,
                        newValue = (if i < 1 then js_index [Some ''a'', Some ''b'', Some ''c''] i
                                    else None),
                        oldValue = None,
                        removedValues = None, addedValues = None, fieldUpdates = None\<rparr>)"
    by blast
  from first second show ?thesis
    by (simp add: Let_def js_index_def)
qed

text \<open>
  C2 as stated fails for a negative index. \<open>RemoveValue(undefined, -1)\<close>
  applied to \<open>["a", "b"]\<close> passes the test, because \<open>arr[-1]\<close> is \<open>undefined\<close>,
  and \<open>splice(-1, 1)\<close> takes away the last element \<open>"b"\<close>. The result reports
  \<open>removedValues = {-1: undefined}\<close> and the indices from \<open>-1\<close> to \<open>2\<close> as
  changed.
\<close>

theorem RemoveValue_negative_index:
  "RemoveValue_applyMutate (RemoveValue None (-1)) [Some ''a'', Some ''b'']
     = \<lparr>receiver = RemoveValue None (-1), argument = [Some ''a''],
        outcome = Inr
          \<lparr>update = This (RemoveValue None (-1)), newValue = [Some ''a''],
           oldValue = None, removedValues = Some [-1 \<mapsto> None], addedValues = None,
           fieldUpdates = Some \<lparr>arr = [Some ''a''], minIdx = -1, maxIdx = 2,
                                indexShift = -1\<rparr>\<rparr>\<rparr>"
  by (simp add: RemoveValue_applyMutate_def Let_def js_index_def splice_start_def
        splice_array_def arrayFieldUpdates_def)

text \<open>
  C5 fails at position \<open>0\<close>: \<open>InsertValue("x", 0)\<close> applied to \<open>["a", "b"]\<close> takes
  the branch meant for a missing position, because \<^verbatim>\<open>if (this._targetIndex)\<close>
  is false for \<open>0\<close>. The value is pushed at the end, the update's own position
  becomes \<open>2\<close>, and the result still reports \<open>addedValues = {0: "x"}\<close> with
  positions \<open>0\<close> to \<open>3\<close> as shifted.
\<close>

theorem InsertValue_at_front_appends:
  "InsertValue_applyMutate (InsertValue (Some ''x'') (Some 0)) (Some [Some ''a'', Some ''b''])
     = \<lparr>receiver = InsertValue (Some ''x'') (Some 2),
        argument = Some [Some ''a'', Some ''b'', Some ''x''],
        outcome = Inr
          \<lparr>update = This (InsertValue (Some ''x'') (Some 2)),
           newValue = [Some ''a'', Some ''b'', Some ''x''],
           oldValue = None, removedValues = None,
           addedValues = Some [0 \<mapsto> Some ''x''],
           fieldUpdates = Some (arrayFieldUpdates [Some ''a'', Some ''b'', Some ''x''] 0 3 1)\<rparr>\<rparr>"
  by (simp add: InsertValue_applyMutate_def Let_def)

text \<open>
  For a position from \<open>1\<close> to the length of the array, and for a missing
  position, \<open>InsertValue\<close> does what C5 describes.
\<close>

lemma InsertValue_applyMutate_inside:
  "0 < idx \<Longrightarrow> idx \<le> length a \<Longrightarrow>
   InsertValue_applyMutate (InsertValue v (Some idx)) (Some a)
     = \<lparr>receiver = InsertValue v (Some idx),
        argument = Some (take idx a @ v # drop idx a),
        outcome = Inr
          \<lparr>update = This (InsertValue v (Some idx)),
           newValue = take idx a @ v # drop idx a,
           oldValue = None, removedValues = None,
           addedValues = Some [idx \<mapsto> v],
           fieldUpdates = Some (arrayFieldUpdates (take idx a @ v # drop idx a)
                                  (int idx) (int (Suc (length a))) 1)\<rparr>\<rparr>"
  by (cases idx) (simp_all add: InsertValue_applyMutate_def Let_def splice_insert_one)

lemma InsertValue_applyMutate_append:
  "InsertValue_applyMutate (InsertValue v None) (Some a)
     = \<lparr>receiver = InsertValue v (Some (length a)),
        argument = Some (a @ [v]),
        outcome = Inr
          \<lparr>update = This (InsertValue v (Some (length a))),
           newValue = a @ [v],
           oldValue = None, removedValues = None,
           addedValues = Some [length a \<mapsto> v],
           fieldUpdates = Some (arrayFieldUpdates (a @ [v])
                                  (int (length a)) (int (Suc (length a))) 1)\<rparr>\<rparr>"
  by (simp add: InsertValue_applyMutate_def Let_def)

subsection \<open>Claims about key updates\<close>

text \<open>
  C10, as the code has it. \<open>RemoveKey(k).applyMutate(v)\<close> returns
  \<open>{update: NoUpdate, newValue: v}\<close> and leaves \<open>v\<close> as it was when \<open>v\<close> is
  \<open>null\<close>, \<open>undefined\<close> or an object in which \<open>k\<close> is neither an own nor an
  inherited property. For an own property that is configurable, the property
  is deleted, \<open>removedValues\<close> is \<open>{k: old value}\<close> and the field update of \<open>k\<close>
  is \<open>{update: Destroy.Instance, newValue: undefined, oldValue: old value,
  fieldUpdates: AllDestroyedUpdates}\<close>. For a property that is only inherited
  the same result is returned, with the inherited value, and the object is
  unchanged. For a primitive value, and for an own property that is not
  configurable, the call raises a \<open>TypeError\<close> and \<open>v\<close> is as it was.
\<close>

theorem RemoveKey_applyMutate_cases:
  "(v = NullValue \<or> v = UndefinedValue
      \<or> (\<exists>obj. v = ObjectValue obj \<and> own obj k = None \<and> inherited obj k = None) \<longrightarrow>
      RemoveKey_applyMutate (RemoveKey k x) v
        = \<lparr>receiver = RemoveKey k x, argument = v,
           outcome = Inr
             \<lparr>update = NoUpdate, newValue = v, oldValue = None, removedValues = None,
              addedValues = None, fieldUpdates = None\<rparr>\<rparr>)
   \<and> (\<forall>obj old. v = ObjectValue obj \<and> own obj k = Some old \<and> k \<notin> nonConfigurable obj \<longrightarrow>
      RemoveKey_applyMutate (RemoveKey k x) v
        = \<lparr>receiver = RemoveKey k x,
           argument = ObjectValue (obj\<lparr>own := (own obj)(k := None)\<rparr>),
           outcome = Inr
             \<lparr>update = This (RemoveKey k x),
              newValue = ObjectValue (obj\<lparr>own := (own obj)(k := None)\<rparr>),
              oldValue = None, removedValues = Some [k \<mapsto> old], addedValues = None,
              fieldUpdates = Some [k \<mapsto>
                \<lparr>update = Destroy_Instance, newValue = None, oldValue = Some old,
                 removedValues = None, addedValues = None,
                 fieldUpdates = Some AllDestroyedUpdates\<rparr>]\<rparr>\<rparr>)
   \<and> (\<forall>obj old. v = ObjectValue obj \<and> own obj k = None \<and> inherited obj k = Some old \<longrightarrow>
      RemoveKey_applyMutate (RemoveKey k x) v
        = \<lparr>receiver = RemoveKey k x, argument = v,
           outcome = Inr
             \<lparr>update = This (RemoveKey k x), newValue = v,
              oldValue = None, removedValues = Some [k \<mapsto> old], addedValues = None,
              fieldUpdates = Some [k \<mapsto>
                \<lparr>update = Destroy_Instance, newValue = None, oldValue = Some old,
                 removedValues = None, addedValues = None,
                 fieldUpdates = Some AllDestroyedUpdates\<rparr>]\<rparr>\<rparr>)
   \<and> ((\<exists>p. v = PrimitiveValue p)
       \<or> (\<exists>obj old. v = ObjectValue obj \<and> own obj k = Some old \<and> k \<in> nonConfigurable obj) \<longrightarrow>
      RemoveKey_applyMutate (RemoveKey k x) v
        = \<lparr>receiver = RemoveKey k x, argument = v, outcome = Inl TypeError\<rparr>)"
  by (auto simp: RemoveKey_applyMutate_def Let_def has_property_def get_property_def
        delete_property_def noChange_def destroyed_def)

theorem RemoveKey_applyMutate_cases_witness:
  "RemoveKey_applyMutate (RemoveKey ''b'' (None :: nat option))
       (ObjectValue \<lparr>own = [''a'' \<mapsto> Some 1], inherited = [''toString'' \<mapsto> Some 0],
                      nonConfigurable = {}\<rparr> :: (bool, string, nat) keyed)
     = \<lparr>receiver = RemoveKey ''b'' None,
        argument = ObjectValue \<lparr>own = [''a'' \<mapsto> Some 1], inherited = [''toString'' \<mapsto> Some 0],
                                nonConfigurable = {}\<rparr>,
        outcome = Inr
          \<lparr>update = NoUpdate,
           newValue = ObjectValue \<lparr>own = [''a'' \<mapsto> Some 1], inherited = [''toString'' \<mapsto> Some 0],
                                   nonConfigurable = {}\<rparr>,
           oldValue = None, removedValues = None, addedValues = None, fieldUpdates = None\<rparr>\<rparr>
   \<and> RemoveKey_applyMutate (RemoveKey ''a'' (None :: nat option))
       (ObjectValue \<lparr>own = [''a'' \<mapsto> Some 1], inherited = [''toString'' \<mapsto> Some 0],
                      nonConfigurable = {}\<rparr> :: (bool, string, nat) keyed)
     = \<lparr>receiver = RemoveKey ''a'' None,
        argument = ObjectValue \<lparr>own = Map.empty, inherited = [''toString'' \<mapsto> Some 0],
                                nonConfigurable = {}\<rparr>,
        outcome = Inr
          \<lparr>update = This (RemoveKey ''a'' None),
           newValue = ObjectValue \<lparr>own = Map.empty, inherited = [''toString'' \<mapsto> Some 0],
                                   nonConfigurable = {}\<rparr>,
           oldValue = None, removedValues = Some [''a'' \<mapsto> Some 1], addedValues = None,
           fieldUpdates = Some [''a'' \<mapsto>
             \<lparr>update = Destroy_Instance, newValue = None, oldValue = Some (Some 1),
              removedValues = None, addedValues = None,
              fieldUpdates = Some AllDestroyedUpdates\<rparr>]\<rparr>\<rparr>
   \<and> RemoveKey_applyMutate (RemoveKey ''a'' (None :: nat option))
       (UndefinedValue :: (bool, string, nat) keyed)
     = \<lparr>receiver = RemoveKey ''a'' None, argument = UndefinedValue,
        outcome = Inr
          \<lparr>update = NoUpdate, newValue = UndefinedValue, oldValue = None,
           removedValues = None, addedValues = None, fieldUpdates = None\<rparr>\<rparr>"
proof -
  let ?obj = "\<lparr>own = [''a'' \<mapsto> Some (1::nat)], inherited = [''toString'' \<mapsto> Some 0],
               nonConfigurable = {}\<rparr>"
  let ?v = "ObjectValue ?obj :: (bool, string, nat) keyed"
  have absent: "?v = NullValue \<or> ?v = UndefinedValue
      \<or> (\<exists>obj. ?v = ObjectValue obj \<and> own obj ''b'' = None \<and> inherited obj ''b'' = None)"
    by simp
  have present: "?v = ObjectValue ?obj \<and> own ?obj ''a'' = Some (Some 1)
      \<and> ''a'' \<notin> nonConfigurable ?obj"
    by simp
  have undefined: "(UndefinedValue :: (bool, string, nat) keyed) = NullValue
      \<or> (UndefinedValue :: (bool, string, nat) keyed) = UndefinedValue
      \<or> (\<exists>obj. (UndefinedValue :: (bool, string, nat) keyed) = ObjectValue obj
             \<and> own obj ''a'' = None \<and> inherited obj ''a'' = None)"
    by simp
  note first = RemoveKey_applyMutate_cases [of ?v "''b''" None, THEN conjunct1, rule_format, OF absent]
  note second = RemoveKey_applyMutate_cases [of ?v "''a''" None, THEN conjunct2, THEN conjunct1,
                  rule_format, OF present]
  note third = RemoveKey_applyMutate_cases [of "UndefinedValue :: (bool, string, nat) keyed" "''a''" None,
                  THEN conjunct1, rule_format, OF undefined]
  have removed: "[''a'' \<mapsto> Some (1::nat)](''a'' := None) = Map.empty" by simp
  from first second third show ?thesis
    by (simp only: removed js_object.simps simp_thms)
qed

text \<open>
  C10 as stated fails. \<open>RemoveKey("a")\<close> raises a \<open>TypeError\<close> on the frozen
  record \<open>{a: 1}\<close> and on the primitive \<open>true\<close>. \<open>RemoveKey("toString")\<close> applied
  to an object with no property of its own, which has \<open>toString\<close> from its
  prototype, returns a removal result and not the \<open>NoUpdate\<close> result.
\<close>

theorem RemoveKey_applyMutate_raises:
  "RemoveKey_applyMutate (RemoveKey ''a'' (None :: nat option))
       (ObjectValue \<lparr>own = [''a'' \<mapsto> Some 1], inherited = Map.empty,
                      nonConfigurable = {''a''}\<rparr> :: (bool, string, nat) keyed)
     = \<lparr>receiver = RemoveKey ''a'' None,
        argument = ObjectValue \<lparr>own = [''a'' \<mapsto> Some 1], inherited = Map.empty,
                                nonConfigurable = {''a''}\<rparr>,
        outcome = Inl TypeError\<rparr>
   \<and> RemoveKey_applyMutate (RemoveKey ''a'' (None :: nat option))
       (PrimitiveValue True :: (bool, string, nat) keyed)
     = \<lparr>receiver = RemoveKey ''a'' None, argument = PrimitiveValue True,
        outcome = Inl TypeError\<rparr>
   \<and> RemoveKey_applyMutate (RemoveKey ''toString'' (None :: nat option))
       (ObjectValue \<lparr>own = Map.empty, inherited = [''toString'' \<mapsto> Some 0],
                      nonConfigurable = {}\<rparr> :: (bool, string, nat) keyed)
     = \<lparr>receiver = RemoveKey ''toString'' None,
        argument = ObjectValue \<lparr>own = Map.empty, inherited = [''toString'' \<mapsto> Some 0],
                                nonConfigurable = {}\<rparr>,
        outcome = Inr
          \<lparr>update = This (RemoveKey ''toString'' None),
           newValue = ObjectValue \<lparr>own = Map.empty, inherited = [''toString'' \<mapsto> Some 0],
                                   nonConfigurable = {}\<rparr>,
           oldValue = None, removedValues = Some [''toString'' \<mapsto> Some 0], addedValues = None,
           fieldUpdates = Some [''toString'' \<mapsto>
             \<lparr>update = Destroy_Instance, newValue = None, oldValue = Some (Some 0),
              removedValues = None, addedValues = None,
              fieldUpdates = Some AllDestroyedUpdates\<rparr>]\<rparr>\<rparr>"
  by (simp add: RemoveKey_applyMutate_def Let_def has_property_def get_property_def
        delete_property_def destroyed_def)

section \<open>Properties of the notebook state handler\<close>

subsection \<open>Positions in the cell order\<close>



lemma indexOf_absent: "x \<notin> set xs \<Longrightarrow> indexOf xs x = -1"
  by (induction xs) (auto simp: Let_def)








subsection \<open>The state container and its watchers\<close>

text \<open>
  What the watchers do when no watched cell has changed, and when one cell
  alone has changed.
\<close>

lemma remove1_funpow_other:
  "y \<noteq> i \<Longrightarrow> (remove1 i ^^ n) (y # ys) = y # (remove1 i ^^ n) ys"
  by (induction n arbitrary: ys) (simp_all add: funpow_swap1)

lemma remove1_funpow_count: "(remove1 i ^^ count_list xs i) xs = removeAll i xs"
proof (induction xs)
  case Nil
  show ?case by simp
next
  case (Cons y ys)
  show ?case
  proof (cases "y = i")
    case True
    then show ?thesis using Cons by (simp add: funpow_swap1)
  next
    case False
    then show ?thesis using Cons by (simp add: remove1_funpow_other)
  qed
qed

lemma activeCellWatchers_unchanged:
  "\<forall>c \<in> set ws. cells new c = cells old c \<Longrightarrow> activeCellWatchers old new ws h = (Inr (), h, 0)"
  by (induction ws arbitrary: h) (simp_all add: NotebookStateHandler_compare_def)

lemma activeCellWatchers_selected:
  assumes "\<forall>c. c \<noteq> i \<longrightarrow> cells new c = cells old c"
    and "cells new i = Some cell'" and "selected cell'"
  shows "activeCellWatchers old new ws h = (Inr (), h, 0)"
  using assms
proof (induction ws arbitrary: h)
  case Nil
  show ?case by simp
next
  case (Cons c cs)
  show ?case
  proof (cases "c = i")
    case True
    with Cons show ?thesis
      by (simp add: NotebookStateHandler_compare_def)
  next
    case False
    with Cons show ?thesis
      by (simp add: NotebookStateHandler_compare_def)
  qed
qed

lemma activeCellWatchers_deselected:
  assumes "\<forall>c. c \<noteq> i \<longrightarrow> cells new c = cells old c"
    and "cells new i = Some cell'" and "cells old i \<noteq> Some cell'" and "\<not> selected cell'"
  shows "activeCellWatchers old new ws h
           = (Inr (), h\<lparr>watching := (remove1 i ^^ count_list ws i) (watching h)\<rparr>, count_list ws i)"
  using assms
proof (induction ws arbitrary: h)
  case Nil
  show ?case by simp
next
  case (Cons c cs)
  show ?case
  proof (cases "c = i")
    case True
    with Cons show ?thesis
      by (simp add: NotebookStateHandler_compare_def funpow_swap1)
  next
    case False
    with Cons show ?thesis
      by (simp add: NotebookStateHandler_compare_def)
  qed
qed

lemma activeCellId_reset_same: "s\<lparr>activeCellId := None\<rparr> = s \<longleftrightarrow> activeCellId s = None"
proof
  assume "s\<lparr>activeCellId := None\<rparr> = s"
  then have "activeCellId (s\<lparr>activeCellId := None\<rparr>) = activeCellId s" by simp
  then show "activeCellId s = None" by simp
next
  assume "activeCellId s = None"
  then have "s\<lparr>activeCellId := None\<rparr> = s\<lparr>activeCellId := activeCellId s\<rparr>" by simp
  then show "s\<lparr>activeCellId := None\<rparr> = s" by simp
qed

lemma update_once_reset:
  "update_once h (\<lambda>s. s\<lparr>activeCellId := None\<rparr>)
     = (Inr (),
        if activeCellId (current h) = None then h
        else h\<lparr>current := (current h)\<lparr>activeCellId := None\<rparr>,
               stored := stored h @ [(current h)\<lparr>activeCellId := None\<rparr>]\<rparr>,
        0)"
  by (simp add: update_once_def Let_def NotebookStateHandler_compare_def activeCellId_reset_same
        activeCellWatchers_unchanged activeCellId_observer_def)

lemma deselected_none:
  "activeCellId (current h) = None \<Longrightarrow> deselected n h = (Inr (), h)"
  by (induction n) (simp_all add: update_once_reset)

lemma deselected_effect:
  "deselected n h
     = (Inr (),
        if n = 0 \<or> activeCellId (current h) = None then h
        else h\<lparr>current := (current h)\<lparr>activeCellId := None\<rparr>,
               stored := stored h @ [(current h)\<lparr>activeCellId := None\<rparr>]\<rparr>)"
  by (cases n) (simp_all add: update_once_reset deselected_none)


lemma cell_write_same:
  assumes "cells s i = Some cell"
  shows "s\<lparr>cells := (cells s)(i \<mapsto> cell')\<rparr> = s \<longleftrightarrow> cell' = cell"
proof
  assume "s\<lparr>cells := (cells s)(i \<mapsto> cell')\<rparr> = s"
  then have "cells (s\<lparr>cells := (cells s)(i \<mapsto> cell')\<rparr>) i = cells s i" by simp
  with assms show "cell' = cell" by simp
next
  assume "cell' = cell"
  with assms have "(cells s)(i \<mapsto> cell') = cells s" by (simp add: map_upd_triv)
  then show "s\<lparr>cells := (cells s)(i \<mapsto> cell')\<rparr> = s" by simp
qed

lemma update_once_cell:
  assumes "cells (current h) i = Some cell" and "cell' \<noteq> cell"
  shows "update_once h (\<lambda>s. s\<lparr>cells := (cells s)(i \<mapsto> cell')\<rparr>)
           = (Inr (),
              (if selected cell'
               then h\<lparr>current := (current h)\<lparr>cells := (cells (current h))(i \<mapsto> cell')\<rparr>,
                      stored := stored h @ [(current h)\<lparr>cells := (cells (current h))(i \<mapsto> cell')\<rparr>]\<rparr>
               else h\<lparr>current := (current h)\<lparr>cells := (cells (current h))(i \<mapsto> cell')\<rparr>,
                      stored := stored h @ [(current h)\<lparr>cells := (cells (current h))(i \<mapsto> cell')\<rparr>],
                      watching := removeAll i (watching h)\<rparr>),
              (if selected cell' then 0 else count_list (watching h) i))"
proof -
  let ?old = "current h"
  let ?new = "(current h)\<lparr>cells := (cells (current h))(i \<mapsto> cell')\<rparr>"
  let ?h1 = "h\<lparr>current := ?new, stored := stored h @ [?new]\<rparr>"
  have differs: "\<not> NotebookStateHandler_compare ?new ?old"
    using assms by (simp add: NotebookStateHandler_compare_def cell_write_same)
  have others: "\<forall>c. c \<noteq> i \<longrightarrow> cells ?new c = cells ?old c" by simp
  have here: "cells ?new i = Some cell'" by simp
  have before: "cells ?old i \<noteq> Some cell'" using assms by simp
  have same_id: "NotebookStateHandler_compare (activeCellId ?new) (activeCellId ?old)"
    by (simp add: NotebookStateHandler_compare_def)
  show ?thesis
  proof (cases "selected cell'")
    case True
    have "activeCellWatchers ?old ?new (watching ?h1) ?h1 = (Inr (), ?h1, 0)"
      by (rule activeCellWatchers_selected [OF others here True])
    with differs same_id True show ?thesis
      by (simp add: update_once_def Let_def)
  next
    case False
    have "activeCellWatchers ?old ?new (watching ?h1) ?h1
            = (Inr (), ?h1\<lparr>watching := (remove1 i ^^ count_list (watching ?h1) i) (watching ?h1)\<rparr>,
               count_list (watching ?h1) i)"
      by (rule activeCellWatchers_deselected [OF others here before False])
    with differs same_id False show ?thesis
      by (simp add: update_once_def Let_def remove1_funpow_count)
  qed
qed

lemma cellsHandler_update1_effect:
  assumes "cells (current h) i = Some cell"
  shows "cellsHandler_update1 h i f
           = Some (Inr (),
               (let cell' = f cell;
                    s1 = (current h)\<lparr>cells := (cells (current h))(i \<mapsto> cell')\<rparr>;
                    s2 = s1\<lparr>activeCellId := None\<rparr>
                in if cell' = cell then h
                   else if i \<in> set (watching h) \<and> \<not> selected cell'
                   then (if activeCellId (current h) = None
                         then h\<lparr>current := s1, stored := stored h @ [s1],
                                watching := removeAll i (watching h)\<rparr>
                         else h\<lparr>current := s2, stored := stored h @ [s1, s2],
                                watching := removeAll i (watching h)\<rparr>)
                   else h\<lparr>current := s1, stored := stored h @ [s1]\<rparr>))"
proof (cases "f cell = cell")
  case True
  with assms have "NotebookStateHandler_compare
                     ((current h)\<lparr>cells := (cells (current h))(i \<mapsto> f cell)\<rparr>) (current h)"
    by (simp add: NotebookStateHandler_compare_def cell_write_same)
  with assms True show ?thesis
    by (simp add: cellsHandler_update1_def NotebookStateHandler_update_def update_once_def Let_def)
next
  case False
  note once = update_once_cell [OF assms False]
  show ?thesis
  proof (cases "selected (f cell)")
    case True
    with assms False once show ?thesis
      by (simp add: cellsHandler_update1_def NotebookStateHandler_update_def Let_def)
  next
    case unselected: False
    show ?thesis
    proof (cases "i \<in> set (watching h)")
      case True
      then have "count_list (watching h) i \<noteq> 0" by (simp add: count_list_0_iff)
      with assms False once unselected True show ?thesis
        by (simp add: cellsHandler_update1_def NotebookStateHandler_update_def Let_def
              deselected_effect)
    next
      case False
      then have "count_list (watching h) i = 0" by (simp add: count_list_0_iff)
      with assms \<open>f cell \<noteq> cell\<close> once unselected False show ?thesis
        by (simp add: cellsHandler_update1_def NotebookStateHandler_update_def Let_def)
    qed
  qed
qed

lemma cellsHandler_update1_cells:
  assumes "cells (current h) i = Some cell"
  shows "cells (current (snd (the (cellsHandler_update1 h i f))))
           = (cells (current h))(i \<mapsto> f cell)"
    and "\<forall>s \<in> set (drop (length (stored h)) (stored (snd (the (cellsHandler_update1 h i f))))).
           cells s = (cells (current h))(i \<mapsto> f cell)"
proof -
  let ?s1 = "(current h)\<lparr>cells := (cells (current h))(i \<mapsto> f cell)\<rparr>"
  let ?s2 = "?s1\<lparr>activeCellId := None\<rparr>"
  note effect = cellsHandler_update1_effect [OF assms, of f, unfolded Let_def]
  consider (same) "f cell = cell"
    | (reset) "f cell \<noteq> cell" "i \<in> set (watching h) \<and> \<not> selected (f cell)"
        "activeCellId (current h) \<noteq> None"
    | (quiet) "f cell \<noteq> cell" "i \<in> set (watching h) \<and> \<not> selected (f cell)"
        "activeCellId (current h) = None"
    | (plain) "f cell \<noteq> cell" "\<not> (i \<in> set (watching h) \<and> \<not> selected (f cell))"
    by blast
  then have "cells (current (snd (the (cellsHandler_update1 h i f))))
               = (cells (current h))(i \<mapsto> f cell)
             \<and> (\<forall>s \<in> set (drop (length (stored h))
                               (stored (snd (the (cellsHandler_update1 h i f))))).
                  cells s = (cells (current h))(i \<mapsto> f cell))"
  proof cases
    case same
    then have "cellsHandler_update1 h i f = Some (Inr (), h)"
      using effect by (simp only: if_True simp_thms)
    with same assms show ?thesis by (simp add: map_upd_triv)
  next
    case reset
    then have "cellsHandler_update1 h i f
                 = Some (Inr (), h\<lparr>current := ?s2, stored := stored h @ [?s1, ?s2],
                                   watching := removeAll i (watching h)\<rparr>)"
      using effect by (simp only: if_True if_False simp_thms)
    then show ?thesis by simp
  next
    case quiet
    then have "cellsHandler_update1 h i f
                 = Some (Inr (), h\<lparr>current := ?s1, stored := stored h @ [?s1],
                                   watching := removeAll i (watching h)\<rparr>)"
      using effect by (simp only: if_True if_False simp_thms)
    then show ?thesis by simp
  next
    case plain
    then have "cellsHandler_update1 h i f
                 = Some (Inr (), h\<lparr>current := ?s1, stored := stored h @ [?s1]\<rparr>)"
      using effect by (simp only: if_True if_False simp_thms)
    then show ?thesis by simp
  qed
  then show "cells (current (snd (the (cellsHandler_update1 h i f))))
               = (cells (current h))(i \<mapsto> f cell)"
    and "\<forall>s \<in> set (drop (length (stored h)) (stored (snd (the (cellsHandler_update1 h i f))))).
           cells s = (cells (current h))(i \<mapsto> f cell)"
    by blast+
qed

lemma setCellLanguage_producer_text:
  "setCellLanguage_producer ''text'' cell =
     cell\<lparr>language := ''text'', output' := \<lparr>items = [], clear = None\<rparr>, results := [],
          error := False, compileErrors := [], runtimeError := None\<rparr>"
  by (simp add: setCellLanguage_producer_def outputs_def)

lemma setCellLanguage_producer_other:
  "lang \<noteq> ''text'' \<Longrightarrow> setCellLanguage_producer lang cell = cell\<lparr>language := lang\<rparr>"
  by (simp add: setCellLanguage_producer_def)

subsection \<open>Claims about the notebook state handler\<close>

text \<open>
  C7. For a cell that is in the notebook, \<open>setCellLanguage(id, "text")\<close> returns
  normally and stores one state, in which that cell has \<open>language = "text"\<close>,
  \<open>output = []\<close>, \<open>results = []\<close>, \<open>error = false\<close>, \<open>compileErrors = []\<close> and
  \<open>runtimeError = undefined\<close>, every other field of the cell, every other cell
  and every other part of the notebook being as before; it stores nothing when
  the cell is in that shape already. The only other state the call can store
  is that same state with \<open>activeCellId\<close> set to \<open>undefined\<close>, which follows
  when the cell had a deselect watcher, was not selected, and a cell was
  active. So in every state stored during the call the cell has all six fields
  in their final shape: no state with only some of them cleared is ever
  stored. With another language the same holds with only the \<open>language\<close> field
  of the cell changed.
\<close>

theorem setCellLanguage_text_clears:
  assumes "cells (current h) i = Some cell"
  shows
    "(let cleared = cell\<lparr>language := ''text'', output' := \<lparr>items = [], clear = None\<rparr>,
                        results := [], error := False, compileErrors := [],
                        runtimeError := None\<rparr>;
          s1 = (current h)\<lparr>cells := (cells (current h))(i \<mapsto> cleared)\<rparr>;
          s2 = s1\<lparr>activeCellId := None\<rparr>
      in setCellLanguage h i ''text''
           = Some (Inr (),
               if cleared = cell then h
               else if i \<in> set (watching h) \<and> \<not> selected cell
               then (if activeCellId (current h) = None
                     then h\<lparr>current := s1, stored := stored h @ [s1],
                            watching := removeAll i (watching h)\<rparr>
                     else h\<lparr>current := s2, stored := stored h @ [s1, s2],
                            watching := removeAll i (watching h)\<rparr>)
               else h\<lparr>current := s1, stored := stored h @ [s1]\<rparr>)
         \<and> cells (current (snd (the (setCellLanguage h i ''text''))))
             = (cells (current h))(i \<mapsto> cleared)
         \<and> (\<forall>s \<in> set (drop (length (stored h))
                            (stored (snd (the (setCellLanguage h i ''text''))))).
               cells s = (cells (current h))(i \<mapsto> cleared)))
     \<and> (lang \<noteq> ''text'' \<longrightarrow>
          (let changed = cell\<lparr>language := lang\<rparr>;
               s1 = (current h)\<lparr>cells := (cells (current h))(i \<mapsto> changed)\<rparr>;
               s2 = s1\<lparr>activeCellId := None\<rparr>
           in setCellLanguage h i lang
                = Some (Inr (),
                    if changed = cell then h
                    else if i \<in> set (watching h) \<and> \<not> selected cell
                    then (if activeCellId (current h) = None
                          then h\<lparr>current := s1, stored := stored h @ [s1],
                                 watching := removeAll i (watching h)\<rparr>
                          else h\<lparr>current := s2, stored := stored h @ [s1, s2],
                                 watching := removeAll i (watching h)\<rparr>)
                    else h\<lparr>current := s1, stored := stored h @ [s1]\<rparr>)
              \<and> (\<forall>s \<in> set (drop (length (stored h))
                                 (stored (snd (the (setCellLanguage h i lang))))).
                    cells s = (cells (current h))(i \<mapsto> changed))))"
proof -
  let ?cleared = "cell\<lparr>language := ''text'', output' := \<lparr>items = [], clear = None\<rparr>,
                       results := [], error := False, compileErrors := [],
                       runtimeError := None\<rparr>"
  have sel: "selected ?cleared = selected cell" by simp
  have sel': "selected (cell\<lparr>language := lang\<rparr>) = selected cell" by simp
  have prod: "setCellLanguage_producer ''text'' cell = ?cleared"
    by (rule setCellLanguage_producer_text)
  note effect = cellsHandler_update1_effect [OF assms, of "setCellLanguage_producer ''text''",
                  folded setCellLanguage_def, unfolded prod Let_def sel]
  note stored_cells = cellsHandler_update1_cells [OF assms, of "setCellLanguage_producer ''text''",
                  folded setCellLanguage_def, unfolded prod]
  have other: "setCellLanguage h i lang
                = Some (Inr (),
                    if cell\<lparr>language := lang\<rparr> = cell then h
                    else if i \<in> set (watching h) \<and> \<not> selected cell
                    then (if activeCellId (current h) = None
                          then h\<lparr>current := (current h)\<lparr>cells := (cells (current h))(i \<mapsto> cell\<lparr>language := lang\<rparr>)\<rparr>,
                                 stored := stored h @ [(current h)\<lparr>cells := (cells (current h))(i \<mapsto> cell\<lparr>language := lang\<rparr>)\<rparr>],
                                 watching := removeAll i (watching h)\<rparr>
                          else h\<lparr>current := (current h)\<lparr>cells := (cells (current h))(i \<mapsto> cell\<lparr>language := lang\<rparr>)\<rparr>\<lparr>activeCellId := None\<rparr>,
                                 stored := stored h @ [(current h)\<lparr>cells := (cells (current h))(i \<mapsto> cell\<lparr>language := lang\<rparr>)\<rparr>,
                                                       (current h)\<lparr>cells := (cells (current h))(i \<mapsto> cell\<lparr>language := lang\<rparr>)\<rparr>\<lparr>activeCellId := None\<rparr>],
                                 watching := removeAll i (watching h)\<rparr>)
                    else h\<lparr>current := (current h)\<lparr>cells := (cells (current h))(i \<mapsto> cell\<lparr>language := lang\<rparr>)\<rparr>,
                           stored := stored h @ [(current h)\<lparr>cells := (cells (current h))(i \<mapsto> cell\<lparr>language := lang\<rparr>)\<rparr>]\<rparr>)
              \<and> (\<forall>s \<in> set (drop (length (stored h))
                                 (stored (snd (the (setCellLanguage h i lang))))).
                    cells s = (cells (current h))(i \<mapsto> cell\<lparr>language := lang\<rparr>))"
    if "lang \<noteq> ''text''"
  proof -
    have prod': "setCellLanguage_producer lang cell = cell\<lparr>language := lang\<rparr>"
      using that by (rule setCellLanguage_producer_other)
    note effect' = cellsHandler_update1_effect [OF assms, of "setCellLanguage_producer lang",
                     folded setCellLanguage_def, unfolded prod' Let_def sel']
    note stored_cells' = cellsHandler_update1_cells [OF assms, of "setCellLanguage_producer lang",
                     folded setCellLanguage_def, unfolded prod']
    from effect' stored_cells'(2) show ?thesis by (rule conjI)
  qed
  show ?thesis
    unfolding Let_def
    using effect stored_cells other by blast
qed

theorem setCellLanguage_text_clears_witness:
  "setCellLanguage
     \<lparr>current = (notebookWith [1])\<lparr>cells :=
                   [1 \<mapsto> (emptyCell 1)\<lparr>output' := outputs [''o1''] None, error := True\<rparr>]\<rparr>,
      stored = [], watching = []\<rparr>
     1 ''text''
   = Some (Inr (),
       \<lparr>current = (notebookWith [1])\<lparr>cells := [1 \<mapsto> (emptyCell 1)\<lparr>language := ''text''\<rparr>]\<rparr>,
        stored = [(notebookWith [1])\<lparr>cells := [1 \<mapsto> (emptyCell 1)\<lparr>language := ''text''\<rparr>]\<rparr>],
        watching = []\<rparr>)
   \<and> setCellLanguage
     \<lparr>current = (notebookWith [1])\<lparr>cells :=
                   [1 \<mapsto> (emptyCell 1)\<lparr>output' := outputs [''o1''] None, error := True\<rparr>]\<rparr>,
      stored = [], watching = []\<rparr>
     1 ''python''
   = Some (Inr (),
       \<lparr>current = (notebookWith [1])\<lparr>cells :=
          [1 \<mapsto> (emptyCell 1)\<lparr>language := ''python'', output' := outputs [''o1''] None,
                                 error := True\<rparr>]\<rparr>,
        stored = [(notebookWith [1])\<lparr>cells :=
          [1 \<mapsto> (emptyCell 1)\<lparr>language := ''python'', output' := outputs [''o1''] None,
                                 error := True\<rparr>]\<rparr>],
        watching = []\<rparr>)"
proof -
  let ?cell = "(emptyCell 1)\<lparr>output' := outputs [''o1''] None, error := True\<rparr>"
  let ?h = "\<lparr>current = (notebookWith [1])\<lparr>cells := [1 \<mapsto> ?cell]\<rparr>, stored = [], watching = []\<rparr>"
  have present: "cells (current ?h) 1 = Some ?cell" by simp
  have other: "''python'' \<noteq> ''text''" by simp
  from setCellLanguage_text_clears [OF present, of "''python''"] other
  show ?thesis
    by (simp add: emptyCell_def outputs_def notebookWith_def Let_def)
qed

text \<open>
  The scenario of the specification, a first selection: on the cells
  \<open>[1, 2, 3]\<close>, none selected, \<open>selectCell(2)\<close> returns \<open>2\<close> and stores one state,
  with \<open>activeCellId = 2\<close> and cell \<open>2\<close> alone selected; cell \<open>2\<close> is then
  watched.
\<close>

lemma selectCell_first_selection:
  "(let r = selectCell (containerWith [1, 2, 3]) (Some 2) None;
        h = snd r
    in fst r = Inr (Some 2)
       \<and> activeCellId (current h) = Some 2
       \<and> map (\<lambda>k. map_option selected (cells (current h) k)) [1, 2, 3]
           = [Some False, Some True, Some False]
       \<and> map activeCellId (stored h) = [Some 2]
       \<and> watching h = [2])"
  by (simp add: selectCell_def NotebookStateHandler_update_def update_once_def Let_def
        NotebookStateHandler_compare_def activeCellId_observer_def containerWith_def
        notebookWith_def emptyCell_def mapValues_def editingRequested_def)

text \<open>
  The two steps of moving the selection from cell \<open>1\<close> to cell \<open>2\<close>, with the
  container written out after each.
\<close>

lemma selectCell_first:
  "selectCell (containerWith [1, 2, 3]) (Some 1) None
     = (Inr (Some 1),
        \<lparr>current = (notebookWith [1, 2, 3])
           \<lparr>activeCellId := Some 1,
            cells := (\<lambda>k. if k \<in> set [1, 2, 3]
                           then Some ((emptyCell k)\<lparr>selected := (k = 1)\<rparr>) else None)\<rparr>,
         stored = [(notebookWith [1, 2, 3])
           \<lparr>activeCellId := Some 1,
            cells := (\<lambda>k. if k \<in> set [1, 2, 3]
                           then Some ((emptyCell k)\<lparr>selected := (k = 1)\<rparr>) else None)\<rparr>],
         watching = [1]\<rparr>)"
  by (simp add: selectCell_def NotebookStateHandler_update_def update_once_def Let_def
        NotebookStateHandler_compare_def activeCellId_observer_def containerWith_def
        notebookWith_def emptyCell_def mapValues_def editingRequested_def fun_eq_iff)

lemma selectCell_second:
  "selectCell
     \<lparr>current = (notebookWith [1, 2, 3])
        \<lparr>activeCellId := Some 1,
         cells := (\<lambda>k. if k \<in> set [1, 2, 3]
                        then Some ((emptyCell k)\<lparr>selected := (k = 1)\<rparr>) else None)\<rparr>,
      stored = [(notebookWith [1, 2, 3])
        \<lparr>activeCellId := Some 1,
         cells := (\<lambda>k. if k \<in> set [1, 2, 3]
                        then Some ((emptyCell k)\<lparr>selected := (k = 1)\<rparr>) else None)\<rparr>],
      watching = [1]\<rparr>
     (Some 2) (Some (Options None None (Some True)))
     = (Inr (Some 2),
        \<lparr>current = (notebookWith [1, 2, 3])
           \<lparr>activeCellId := None,
            cells := (\<lambda>k. if k \<in> set [1, 2, 3]
                           then Some ((emptyCell k)\<lparr>selected := (k = 2), editing := (k = 2)\<rparr>)
                           else None)\<rparr>,
         stored =
           [(notebookWith [1, 2, 3])
              \<lparr>activeCellId := Some 1,
               cells := (\<lambda>k. if k \<in> set [1, 2, 3]
                              then Some ((emptyCell k)\<lparr>selected := (k = 1)\<rparr>) else None)\<rparr>,
            (notebookWith [1, 2, 3])
              \<lparr>activeCellId := Some 2,
               cells := (\<lambda>k. if k \<in> set [1, 2, 3]
                              then Some ((emptyCell k)\<lparr>selected := (k = 2), editing := (k = 2)\<rparr>)
                              else None)\<rparr>,
            (notebookWith [1, 2, 3])
              \<lparr>activeCellId := None,
               cells := (\<lambda>k. if k \<in> set [1, 2, 3]
                              then Some ((emptyCell k)\<lparr>selected := (k = 2), editing := (k = 2)\<rparr>)
                              else None)\<rparr>],
         watching = [2]\<rparr>)"
  by (simp add: selectCell_def NotebookStateHandler_update_def update_once_def Let_def
        NotebookStateHandler_compare_def activeCellId_observer_def
        notebookWith_def emptyCell_def mapValues_def editingRequested_def fun_eq_iff)

text \<open>
  C8 fails once a cell has been selected before. On the cells \<open>[1, 2, 3]\<close>,
  \<open>selectCell(1)\<close> leaves cell \<open>1\<close> active, selected and watched. Then
  \<open>selectCell(2, {editing: true})\<close> returns \<open>2\<close> and stores the state with
  \<open>activeCellId = 2\<close> in which cell \<open>2\<close> alone is selected and editing. In the
  dispatch of that state the watcher of cell \<open>1\<close> finds its cell deselected
  and asks for \<open>activeCellId\<close> to be \<open>undefined\<close>, which is stored next. After
  the call cell \<open>2\<close> is selected and \<open>activeCellId\<close> is \<open>undefined\<close>, not \<open>2\<close>.
\<close>

theorem selectCell_moving_resets_activeCellId:
  "(let h1 = snd (selectCell (containerWith [1, 2, 3]) (Some 1) None);
        r = selectCell h1 (Some 2) (Some (Options None None (Some True)));
        h2 = snd r
    in activeCellId (current h1) = Some 1
       \<and> map (\<lambda>k. map_option selected (cells (current h1) k)) [1, 2, 3]
           = [Some True, Some False, Some False]
       \<and> watching h1 = [1]
       \<and> fst r = Inr (Some 2)
       \<and> activeCellId (current h2) = None
       \<and> map (\<lambda>k. map_option selected (cells (current h2) k)) [1, 2, 3]
           = [Some False, Some True, Some False]
       \<and> map (\<lambda>k. map_option editing (cells (current h2) k)) [1, 2, 3]
           = [Some False, Some True, Some False]
       \<and> map activeCellId (stored h2) = [Some 1, Some 2, None]
       \<and> watching h2 = [2])"
  unfolding Let_def selectCell_first snd_conv fst_conv selectCell_second
  by (simp add: emptyCell_def)




section \<open>What applying an update does to the update\<close>

subsection \<open>The receiver after the call, class by class\<close>

lemma RemoveKey_receiver: "receiver (RemoveKey_applyMutate u v) = u"
  by (simp add: RemoveKey_applyMutate_def Let_def split: keyed.splits sum.splits)

lemma RemoveValue_receiver: "receiver (RemoveValue_applyMutate u a) = u"
  by (simp add: RemoveValue_applyMutate_def Let_def)

lemma MoveArrayValue_receiver: "receiver (MoveArrayValue_applyMutate u a) = u"
  by (simp add: MoveArrayValue_applyMutate_def Let_def split: prod.splits)

lemma RenameKey_receiver: "receiver (RenameKey_applyMutate u v) = u"
  by (simp add: RenameKey_applyMutate_def Let_def split: nullable.splits)

lemma SetValue_receiver: "receiver (SetValue_applyMutate u v) = u"
  by (simp add: SetValue_applyMutate_def)

lemma EditString_receiver: "receiver (EditString_applyMutate apply u v) = u"
  by (simp add: EditString_applyMutate_def)

lemma UpdateKey_receiver:
  "receiver (UpdateKey_applyMutate child_apply u v)
     = (case v of
          Object obj \<Rightarrow>
            UpdateKey (UpdateKey_key u)
              (receiver (child_apply (UpdateKey_update u) (field_of obj (UpdateKey_key u))))
        | _ \<Rightarrow> u)"
  by (simp add: UpdateKey_applyMutate_def Let_def split: nullable.splits sum.splits)

lemma UpdateWith_step_finished:
  assumes "\<And>c x. receiver (child_apply c x) = c"
  shows "loop_finished (UpdateWith_step child_apply st entry) = loop_finished st @ [entry]"
  by (simp add: UpdateWith_step_def Let_def assms split: option.splits sum.splits)

lemma UpdateWith_loop_finished:
  assumes "\<And>c x. receiver (child_apply c x) = c"
  shows "loop_finished (foldl (UpdateWith_step child_apply) st entries) = loop_finished st @ entries"
  by (induction entries arbitrary: st) (simp_all add: UpdateWith_step_finished [OF assms])

lemma UpdateWith_step_keys:
  "map fst (loop_finished (UpdateWith_step child_apply st entry)) = map fst (loop_finished st) @ [fst entry]"
  by (simp add: UpdateWith_step_def Let_def split: option.splits sum.splits)

lemma UpdateWith_loop_keys:
  "map fst (loop_finished (foldl (UpdateWith_step child_apply) st entries))
     = map fst (loop_finished st) @ map fst entries"
  by (induction entries arbitrary: st) (simp_all add: UpdateWith_step_keys)

lemma UpdateWith_receiver:
  "receiver (UpdateWith_applyMutate child_apply u v)
     = UpdateWith
         (loop_finished (foldl (UpdateWith_step child_apply)
            \<lparr>loop_finished = [],
             loop_value = (case v of Object obj \<Rightarrow> obj | _ \<Rightarrow> Map.empty),
             loop_fieldUpdateResults = None, loop_addedValues = None, loop_removedValues = None,
             loop_anyChanged = False, loop_raised = None\<rparr>
            (UpdateWith_fieldUpdates u)))
         (UpdateWith_removedValues u)"
  by (simp add: UpdateWith_applyMutate_def Let_def split: option.splits)

lemma InsertValue_receiver:
  "receiver (InsertValue_applyMutate u a)
     = (case InsertValue_targetIndex u of
          Some (Suc n) \<Rightarrow> u
        | _ \<Rightarrow> InsertValue (InsertValue_value u)
                 (Some (length (case a of None \<Rightarrow> [] | Some x \<Rightarrow> x))))"
  by (simp add: InsertValue_applyMutate_def Let_def split: option.splits nat.splits)

subsection \<open>The claim about immutability\<close>

text \<open>
  C6, as the code has it. Applying a \<open>RemoveKey\<close>, \<open>RemoveValue\<close>,
  \<open>MoveArrayValue\<close>, \<open>RenameKey\<close>, \<open>SetValue\<close> or \<open>EditString\<close> to any value leaves
  every field of the update as it was constructed (\<open>NoUpdate\<close> and \<open>Destroy\<close>
  have no field to change). \<open>UpdateKey\<close> and \<open>UpdateWith\<close> assign none of their
  fields: they keep their key, respectively their keys and \<open>_removedValues\<close>,
  they hold the same child updates afterwards, each as its own application
  leaves it, and they are unchanged whenever applying a child leaves the child
  unchanged. Applying an \<open>InsertValue\<close> leaves
  its \<open>value\<close> unchanged; it leaves the update unchanged when it was constructed
  with a position other than \<open>0\<close>; and when it was constructed without a
  position, it sets \<open>targetIndex\<close> to the length the array had when the update
  was applied.
\<close>

theorem applyMutate_leaves_update_fields:
  "receiver (RemoveKey_applyMutate rk v1) = rk
   \<and> receiver (RemoveValue_applyMutate rv a1) = rv
   \<and> receiver (MoveArrayValue_applyMutate mv a2) = mv
   \<and> receiver (RenameKey_applyMutate rn v2) = rn
   \<and> receiver (SetValue_applyMutate sv v3) = sv
   \<and> receiver (EditString_applyMutate apply es str) = es
   \<and> UpdateKey_key (receiver (UpdateKey_applyMutate child_apply uk v4)) = UpdateKey_key uk
   \<and> ((\<forall>c x. receiver (child_apply c x) = c) \<longrightarrow>
        receiver (UpdateKey_applyMutate child_apply uk v4) = uk)
   \<and> map fst (UpdateWith_fieldUpdates (receiver (UpdateWith_applyMutate child_apply uw v5)))
        = map fst (UpdateWith_fieldUpdates uw)
   \<and> UpdateWith_removedValues (receiver (UpdateWith_applyMutate child_apply uw v5))
        = UpdateWith_removedValues uw
   \<and> ((\<forall>c x. receiver (child_apply c x) = c) \<longrightarrow>
        receiver (UpdateWith_applyMutate child_apply uw v5) = uw)
   \<and> InsertValue_value (receiver (InsertValue_applyMutate iv a3)) = InsertValue_value iv
   \<and> (\<forall>n. InsertValue_targetIndex iv = Some (Suc n) \<longrightarrow>
        receiver (InsertValue_applyMutate iv a3) = iv)
   \<and> (InsertValue_targetIndex iv = None \<longrightarrow>
        receiver (InsertValue_applyMutate iv a3)
          = InsertValue (InsertValue_value iv)
              (Some (length (case a3 of None \<Rightarrow> [] | Some x \<Rightarrow> x))))
   \<and> UpdateKey_update (receiver (UpdateKey_applyMutate child_apply uk (Object obj)))
        = receiver (child_apply (UpdateKey_update uk) (field_of obj (UpdateKey_key uk)))
   \<and> receiver (NoUpdate_applyMutate v6) = ()
   \<and> receiver (Destroy_applyMutate v7) = ()"
proof -
  have key: "UpdateKey_key (receiver (UpdateKey_applyMutate child_apply uk v4)) = UpdateKey_key uk"
    by (simp add: UpdateKey_receiver split: nullable.splits)
  have uk: "(\<forall>c x. receiver (child_apply c x) = c) \<longrightarrow>
        receiver (UpdateKey_applyMutate child_apply uk v4) = uk"
    by (simp add: UpdateKey_receiver split: nullable.splits)
  have keys: "map fst (UpdateWith_fieldUpdates (receiver (UpdateWith_applyMutate child_apply uw v5)))
        = map fst (UpdateWith_fieldUpdates uw)"
    by (simp add: UpdateWith_receiver UpdateWith_loop_keys)
  have rem: "UpdateWith_removedValues (receiver (UpdateWith_applyMutate child_apply uw v5))
        = UpdateWith_removedValues uw"
    by (simp add: UpdateWith_receiver)
  have uw: "(\<forall>c x. receiver (child_apply c x) = c) \<longrightarrow>
        receiver (UpdateWith_applyMutate child_apply uw v5) = uw"
  proof
    assume "\<forall>c x. receiver (child_apply c x) = c"
    then have "\<And>c x. receiver (child_apply c x) = c" by simp
    note loop = UpdateWith_loop_finished [of child_apply, OF this]
    show "receiver (UpdateWith_applyMutate child_apply uw v5) = uw"
      by (simp add: UpdateWith_receiver loop)
  qed
  have iv1: "InsertValue_value (receiver (InsertValue_applyMutate iv a3)) = InsertValue_value iv"
    by (simp add: InsertValue_receiver split: option.splits nat.splits)
  have iv2: "\<forall>n. InsertValue_targetIndex iv = Some (Suc n) \<longrightarrow>
        receiver (InsertValue_applyMutate iv a3) = iv"
    by (simp add: InsertValue_receiver)
  have iv3: "InsertValue_targetIndex iv = None \<longrightarrow>
        receiver (InsertValue_applyMutate iv a3)
          = InsertValue (InsertValue_value iv)
              (Some (length (case a3 of None \<Rightarrow> [] | Some x \<Rightarrow> x)))"
    by (simp add: InsertValue_receiver)
  have child: "UpdateKey_update (receiver (UpdateKey_applyMutate child_apply uk (Object obj)))
        = receiver (child_apply (UpdateKey_update uk) (field_of obj (UpdateKey_key uk)))"
    by (simp add: UpdateKey_receiver)
  from key uk keys rem uw iv1 iv2 iv3 child show ?thesis
    by (simp add: RemoveKey_receiver RemoveValue_receiver MoveArrayValue_receiver
          RenameKey_receiver SetValue_receiver EditString_receiver)
qed

theorem applyMutate_leaves_update_fields_witness:
  "receiver (UpdateKey_applyMutate
       (\<lambda>c v. Destroy_applyMutate v
          :: (unit, nat option, (unit, nat option, unit, AllDestroyedUpdates) UpdateResult) applied)
       (UpdateKey ''a'' ()) (Object [''a'' \<mapsto> Some 1]))
     = UpdateKey ''a'' ()
   \<and> receiver (UpdateWith_applyMutate
       (\<lambda>c v. Destroy_applyMutate v
          :: (unit, nat option, (unit, nat option, unit, AllDestroyedUpdates) UpdateResult) applied)
       (UpdateWith [(''a'', ())] Map.empty) (Object [''a'' \<mapsto> Some 1]))
     = UpdateWith [(''a'', ())] Map.empty
   \<and> receiver (InsertValue_applyMutate (InsertValue (Some ''x'') (Some 1)) (Some [Some ''a'']))
     = InsertValue (Some ''x'') (Some 1)
   \<and> receiver (InsertValue_applyMutate (InsertValue (Some ''x'') None) (Some [Some ''a'']))
     = InsertValue (Some ''x'') (Some 1)"
proof -
  let ?child = "\<lambda>c v. Destroy_applyMutate v
          :: (unit, nat option, (unit, nat option, unit, AllDestroyedUpdates) UpdateResult) applied"
  have children: "\<forall>c x. receiver (?child c x) = c" by simp
  note inst = applyMutate_leaves_update_fields
         [where child_apply = ?child and uk = "UpdateKey ''a'' ()"
            and ?v4.0 = "Object [''a'' \<mapsto> Some 1]"
            and uw = "UpdateWith [(''a'', ())] Map.empty"
            and ?v5.0 = "Object [''a'' \<mapsto> Some 1]"
            and iv = "InsertValue (Some ''x'') (Some 1)" and ?a3.0 = "Some [Some ''a'']"]
  from inst [THEN conjunct2, THEN conjunct2, THEN conjunct2, THEN conjunct2, THEN conjunct2, THEN conjunct2, THEN conjunct2, THEN conjunct1] children
  have first: "receiver (UpdateKey_applyMutate ?child (UpdateKey ''a'' ()) (Object [''a'' \<mapsto> Some 1]))
                 = UpdateKey ''a'' ()"
    by simp
  from inst [THEN conjunct2, THEN conjunct2, THEN conjunct2, THEN conjunct2, THEN conjunct2, THEN conjunct2, THEN conjunct2, THEN conjunct2, THEN conjunct2, THEN conjunct2, THEN conjunct1] children
  have second: "receiver (UpdateWith_applyMutate ?child (UpdateWith [(''a'', ())] Map.empty)
                   (Object [''a'' \<mapsto> Some 1]))
                 = UpdateWith [(''a'', ())] Map.empty"
    by simp
  from inst [THEN conjunct2, THEN conjunct2, THEN conjunct2, THEN conjunct2, THEN conjunct2, THEN conjunct2, THEN conjunct2, THEN conjunct2, THEN conjunct2, THEN conjunct2, THEN conjunct2, THEN conjunct2, THEN conjunct1]
  have third: "receiver (InsertValue_applyMutate (InsertValue (Some ''x'') (Some 1)) (Some [Some ''a'']))
                 = InsertValue (Some ''x'') (Some 1)"
    by simp
  from applyMutate_leaves_update_fields
         [where iv = "InsertValue (Some ''x'') None" and ?a3.0 = "Some [Some ''a'']",
          THEN conjunct2, THEN conjunct2, THEN conjunct2, THEN conjunct2, THEN conjunct2, THEN conjunct2, THEN conjunct2, THEN conjunct2, THEN conjunct2, THEN conjunct2, THEN conjunct2, THEN conjunct2, THEN conjunct2, THEN conjunct1]
  have fourth: "receiver (InsertValue_applyMutate (InsertValue (Some ''x'') None) (Some [Some ''a'']))
                 = InsertValue (Some ''x'') (Some 1)"
    by simp
  from first second third fourth show ?thesis by simp
qed

text \<open>
  C6 as stated fails: an \<open>InsertValue("x")\<close> constructed without a position and
  applied to \<open>["a", "b"]\<close> has \<open>targetIndex = 2\<close> afterwards.
\<close>

theorem InsertValue_append_sets_targetIndex:
  "receiver (InsertValue_applyMutate (InsertValue (Some ''x'') None) (Some [Some ''a'', Some ''b'']))
     = InsertValue (Some ''x'') (Some 2)
   \<and> receiver (InsertValue_applyMutate (InsertValue (Some ''x'') None) (Some [Some ''a'', Some ''b'']))
     \<noteq> InsertValue (Some ''x'') None"
  by (simp add: InsertValue_applyMutate_def Let_def)

end
